theory Spec2Isabelle
  imports Complex_Main "HOL-Library.AList" "HOL-Library.Signed_Division"
begin

section \<open>Values shared by both source files\<close>

text \<open>
  Python exceptions are values. Every function below that can raise returns a sum whose
  left injection carries the exception.
\<close>

datatype error = KeyError | IndexError | ValueError | AxisError | UnboundLocalError
  | ZeroDivisionError | SchemaMismatch | NotModelled

text \<open>
  \<open>NotModelled\<close> is not a Python exception: it marks inputs the model does not cover (a
  heap that is not the heap of a \<open>LeR\<close> instance, a field of the wrong dimension whose
  numpy broadcasting is not modelled). No theorem below is about such inputs.
\<close>

text \<open>
  Floating-point numbers are idealised as reals. The one non-number the code treats
  explicitly is NaN, which marks an absent image in a per-image (two-dimensional) field;
  such fields hold \<open>npfloat\<close> entries, one-dimensional fields hold reals.
\<close>

datatype npfloat = NaN | Fin real

fun nan_to_num :: "npfloat \<Rightarrow> real" where
  "nan_to_num NaN = 0"
| "nan_to_num (Fin x) = x"

text \<open>\<open>v > t\<close> on a float: every comparison with NaN is false.\<close>

fun np_gt :: "npfloat \<Rightarrow> real \<Rightarrow> bool" where
  "np_gt NaN t = False"
| "np_gt (Fin x) t = (t < x)"

fun finite_part :: "npfloat list \<Rightarrow> real list" where
  "finite_part [] = []"
| "finite_part (NaN # vs) = finite_part vs"
| "finite_part (Fin x # vs) = x # finite_part vs"

fun count_nan :: "npfloat list \<Rightarrow> nat" where
  "count_nan [] = 0"
| "count_nan (NaN # vs) = Suc (count_nan vs)"
| "count_nan (Fin x # vs) = count_nan vs"

text \<open>
  \<open>-np.sort(-row)\<close>: negate, sort ascending (numpy places NaN last), negate again. The
  numbers come out in descending order, followed by the NaN entries.
\<close>

definition sort_desc_row :: "npfloat list \<Rightarrow> npfloat list" where
  "sort_desc_row row =
     map Fin (map uminus (sort (map uminus (finite_part row)))) @ replicate (count_nan row) NaN"

text \<open>
  A two-dimensional array is its column count together with its rows; the column count is
  kept apart so that an array without rows still has a shape.
\<close>

type_synonym matrix = "nat \<times> npfloat list list"


definition sort_desc_axis1 :: "matrix \<Rightarrow> matrix" where
  "sort_desc_axis1 m = (fst m, map sort_desc_row (snd m))"

text \<open>\<open>m[:, j]\<close> raises IndexError when \<open>j\<close> is not a column of \<open>m\<close>.\<close>

definition column :: "matrix \<Rightarrow> nat \<Rightarrow> error + npfloat list" where
  "column m j = (if j < fst m then Inr (map (\<lambda>row. row ! j) (snd m)) else Inl IndexError)"

text \<open>
  \<open>(-snr_threshold).argsort()\<close>: the indices of the thresholds, hardest threshold first.
  Equal thresholds keep their input order.
\<close>

definition argsort_desc :: "real list \<Rightarrow> nat list" where
  "argsort_desc ths = sort_key (\<lambda>i. - (ths ! i)) [0..<length ths]"

section \<open>Detection selection in \<open>lensed_rate\<close> (ler.py, lines 466 to 488)\<close>

text \<open>
  The loop variables: \<open>num2\<close> is the next column of the sorted signal array, \<open>snr_hit\<close> the
  hit mask, \<open>pdet_combined\<close> the joint detection probability, and \<open>pdet\<close> the probability
  of the column consumed last, unbound until the loop body has run once.
\<close>

record loop_state =
  num2 :: nat
  snr_hit :: "bool list"
  pdet_combined :: "real list"
  pdet :: "real list option"

text \<open>The body of \<open>for j in range(num1)\<close>, run \<open>num1\<close> times for one threshold.\<close>

fun image_loop ::
  "(real \<Rightarrow> real) \<Rightarrow> matrix \<Rightarrow> real \<Rightarrow> nat \<Rightarrow> loop_state \<Rightarrow> error + loop_state" where
  "image_loop cdf sorted_snr th 0 st = Inr st"
| "image_loop cdf sorted_snr th (Suc j) st =
     (case column sorted_snr (num2 st) of
        Inl e \<Rightarrow> Inl e
      | Inr col \<Rightarrow>
          (let p = map (\<lambda>v. 1 - cdf (th - nan_to_num v)) col
           in image_loop cdf sorted_snr th j
                \<lparr> num2 = num2 st + 1,
                  snr_hit = map2 (\<and>) (snr_hit st) (map (\<lambda>v. np_gt v th) col),
                  pdet_combined = map2 (*) (pdet_combined st) p,
                  pdet = Some p \<rparr>))"

text \<open>
  \<open>for i in arg_th\<close>: \<open>num_img[i]\<close> raises IndexError when there are fewer image counts
  than thresholds; a negative count gives an empty range.
\<close>

fun threshold_loop ::
  "(real \<Rightarrow> real) \<Rightarrow> matrix \<Rightarrow> real list \<Rightarrow> int list \<Rightarrow> nat list \<Rightarrow> loop_state
     \<Rightarrow> error + loop_state" where
  "threshold_loop cdf sorted_snr ths num_img [] st = Inr st"
| "threshold_loop cdf sorted_snr ths num_img (i # rest) st =
     (if length num_img \<le> i then Inl IndexError
      else (case image_loop cdf sorted_snr (ths ! i) (nat (num_img ! i)) st of
              Inl e \<Rightarrow> Inl e
            | Inr st' \<Rightarrow> threshold_loop cdf sorted_snr ths num_img rest st'))"

definition detection_selection ::
  "(real \<Rightarrow> real) \<Rightarrow> real list \<Rightarrow> int list \<Rightarrow> matrix \<Rightarrow> error + loop_state" where
  "detection_selection cdf snr_threshold num_img snr =
     threshold_loop cdf (sort_desc_axis1 snr) snr_threshold num_img (argsort_desc snr_threshold)
       \<lparr> num2 = 0,
         snr_hit = replicate (length (snd snr)) True,
         pdet_combined = replicate (length (snd snr)) 1,
         pdet = None \<rparr>"

subsection \<open>The selection rule in the words of the specification\<close>






subsection \<open>Proof devices for the selection loop\<close>



text \<open>The three-system batch of the specification's ranking example.\<close>

definition example_signals :: matrix where
  "example_signals = (2, [[Fin 10, Fin 7], [Fin 9, Fin 2], [Fin 3, Fin 1]])"

text \<open>
  \<open>norm.cdf\<close> is a parameter of the model. This symmetric distribution function stands in
  for it where a concrete one is needed.
\<close>

definition ramp_cdf :: "real \<Rightarrow> real" where
  "ramp_cdf x = 1 / 2 + x / (2 * (1 + \<bar>x\<bar>))"

section \<open>Record batches (ler.py)\<close>

text \<open>
  An array is one-dimensional (a real per system) or two-dimensional (a row of per-image
  values per system). A batch is a Python dict from field names to arrays; it is an
  association list in insertion order, with distinct keys.
\<close>

datatype ndarray = Arr1 "real list" | Arr2 matrix

type_synonym batch = "(string \<times> ndarray) list"

fun np_len :: "ndarray \<Rightarrow> nat" where
  "np_len (Arr1 xs) = length xs"
| "np_len (Arr2 m) = length (snd m)"

text \<open>\<open>d.update(other)\<close>: a present key keeps its place, a new key goes to the end.\<close>

definition dict_update :: "('k \<times> 'v) list \<Rightarrow> ('k \<times> 'v) list \<Rightarrow> ('k \<times> 'v) list" where
  "dict_update d other = fold (\<lambda>kv. AList.update (fst kv) (snd kv)) other d"

text \<open>
  \<open>np.append(a, b, axis=0)\<close> joins along the first axis and raises ValueError when the
  dimensions or the column counts differ.
\<close>

fun np_append :: "ndarray \<Rightarrow> ndarray \<Rightarrow> error + ndarray" where
  "np_append (Arr1 xs) (Arr1 ys) = Inr (Arr1 (xs @ ys))"
| "np_append (Arr2 m) (Arr2 m') =
     (if fst m = fst m' then Inr (Arr2 (fst m, snd m @ snd m')) else Inl ValueError)"
| "np_append (Arr1 xs) (Arr2 m') = Inl ValueError"
| "np_append (Arr2 m) (Arr1 ys) = Inl ValueError"

text \<open>
  \<open>for key in acc.keys(): acc[key] = np.append(acc[key], new[key], axis=0)\<close>: a key of the
  accumulated batch that the new batch lacks raises KeyError; extra keys of the new batch
  are ignored.
\<close>

fun append_fields :: "batch \<Rightarrow> batch \<Rightarrow> error + batch" where
  "append_fields [] new = Inr []"
| "append_fields ((k, v) # rest) new =
     (case map_of new k of
        None \<Rightarrow> Inl KeyError
      | Some w \<Rightarrow>
          (case np_append v w of
             Inl e \<Rightarrow> Inl e
           | Inr x \<Rightarrow>
               (case append_fields rest new of
                  Inl e \<Rightarrow> Inl e
                | Inr rest' \<Rightarrow> Inr ((k, x) # rest'))))"


section \<open>Batched accumulation (ler.py, lines 236 to 285 and 360 to 427)\<close>

text \<open>
  The collaborators of class \<open>LeR\<close> are parameters: the source sampler, the lens sampler,
  the image solver and the two signal calculators, the normalisation constants and
  scipy's \<open>norm.cdf\<close>. Samplers thread the state \<open>'g\<close> of the random generator. The image
  bounds and the lens model list of \<open>lensed_param_sampler_dict\<close> are only handed on to the
  image solver and the signal calculator, and are taken as fixed in them.
\<close>

record 'g collaborators =
  sample_gw_parameters :: "int \<Rightarrow> 'g \<Rightarrow> batch \<times> 'g"
  snr_calculator :: "batch \<Rightarrow> batch"
  sample_lens_parameters :: "int \<Rightarrow> 'g \<Rightarrow> batch \<times> 'g"
  get_image_properties :: "batch \<Rightarrow> 'g \<Rightarrow> batch \<times> 'g"
  get_lensed_snrs :: "batch \<Rightarrow> batch"
  unlensed_normalization_pdf_z :: real
  lensed_normalization_pdf_z :: real
  norm_cdf :: "real \<Rightarrow> real"

text \<open>
  Lines 244 to 255: the number of further rounds and the size of the leading round.
  \<open>int(nsamples/batch_size)\<close> truncates towards zero, \<open>%\<close> raises on a zero divisor.
\<close>

definition batch_plan :: "int \<Rightarrow> int \<Rightarrow> error + int \<times> int" where
  "batch_plan nsamples batch_size =
     (if batch_size = 0 then Inl ZeroDivisionError
      else
        (let num_batches = (if nsamples mod batch_size = 0 then nsamples sdiv batch_size
                            else nsamples sdiv batch_size + 1);
             num_batches = num_batches - 1;
             frac_batches = (if nsamples > batch_size then nsamples - num_batches * batch_size
                             else nsamples)
         in Inr (frac_batches, num_batches)))"

text \<open>One round of the unlensed loop: sample, compute the signals, merge them in.\<close>

definition unlensed_round :: "'g collaborators \<Rightarrow> int \<Rightarrow> 'g \<Rightarrow> batch \<times> 'g" where
  "unlensed_round C n g =
     (let (gw_param, g1) = sample_gw_parameters C n g
      in (dict_update gw_param (snr_calculator C gw_param), g1))"

text \<open>
  One round of the lensed loop: sample, enrich with the image properties, compute the
  signals of the enriched batch, merge them in.
\<close>

definition lensed_round :: "'g collaborators \<Rightarrow> int \<Rightarrow> 'g \<Rightarrow> batch \<times> 'g" where
  "lensed_round C n g =
     (let (lensed_param, g1) = sample_lens_parameters C n g;
          (lensed_param, g2) = get_image_properties C lensed_param g1
      in (dict_update lensed_param (get_lensed_snrs C lensed_param), g2))"

text \<open>
  \<open>for i in range(num_batches)\<close>, the same in both methods up to the round it runs. The
  list of integers is a trace, not program state: it records the size each round asked for.
\<close>

fun accumulate ::
  "(int \<Rightarrow> 'g \<Rightarrow> batch \<times> 'g) \<Rightarrow> int \<Rightarrow> nat \<Rightarrow> batch \<Rightarrow> int list \<Rightarrow> 'g
     \<Rightarrow> (error + batch \<times> int list) \<times> 'g" where
  "accumulate sample_round batch_size 0 acc sizes g = (Inr (acc, sizes), g)"
| "accumulate sample_round batch_size (Suc k) acc sizes g =
     (let (new, g1) = sample_round batch_size g
      in (case append_fields acc new of
            Inl e \<Rightarrow> (Inl e, g1)
          | Inr acc' \<Rightarrow> accumulate sample_round batch_size k acc' (sizes @ [batch_size]) g1))"

definition cbc_statistics ::
  "(int \<Rightarrow> 'g \<Rightarrow> batch \<times> 'g) \<Rightarrow> int \<Rightarrow> int \<Rightarrow> 'g \<Rightarrow> (error + batch \<times> int list) \<times> 'g" where
  "cbc_statistics sample_round nsamples batch_size g =
     (case batch_plan nsamples batch_size of
        Inl e \<Rightarrow> (Inl e, g)
      | Inr (frac_batches, num_batches) \<Rightarrow>
          (let (first, g1) = sample_round frac_batches g
           in accumulate sample_round batch_size (nat num_batches) first [frac_batches] g1))"

text \<open>
  \<open>if nsamples == False\<close> holds for the default \<open>False\<close> and also for \<open>0\<close>; then the stored
  sample count is used, otherwise the argument replaces the stored one.
\<close>

definition resolve_nsamples :: "int option \<Rightarrow> int \<Rightarrow> int" where
  "resolve_nsamples arg stored =
     (case arg of None \<Rightarrow> stored | Some n \<Rightarrow> (if n = 0 then stored else n))"

section \<open>The \<open>LeR\<close> instance and its objects\<close>

text \<open>
  Dicts and arrays are objects in a store, addressed by their index; a dict holds the
  addresses of its arrays, so that a shallow copy shares them. Objects are only ever
  appended, and an object is changed only through \<open>set_item\<close>.
\<close>

datatype obj = Dict "(string \<times> nat) list" | Array ndarray

type_synonym heap = "obj list"

text \<open>
  The attributes of the instance: \<open>None\<close> stands for the initial value \<open>False\<close> of the four
  population attributes; \<open>gw_nsamples\<close> and \<open>lensed_nsamples\<close> are the \<open>'nsamples'\<close> entries
  of the two sampler dicts.
\<close>

record 'g ler =
  heap :: heap
  rng :: 'g
  batch_size :: int
  gw_nsamples :: int
  lensed_nsamples :: int
  gw_param :: "nat option"
  gw_param_detectable :: "nat option"
  lensed_param :: "nat option"
  lensed_param_detectable :: "nat option"

definition get_dict :: "heap \<Rightarrow> nat \<Rightarrow> error + (string \<times> nat) list" where
  "get_dict h a =
     (if a < length h then (case h ! a of Dict d \<Rightarrow> Inr d | Array v \<Rightarrow> Inl NotModelled)
      else Inl NotModelled)"

definition get_array :: "heap \<Rightarrow> nat \<Rightarrow> error + ndarray" where
  "get_array h a =
     (if a < length h then (case h ! a of Array v \<Rightarrow> Inr v | Dict d \<Rightarrow> Inl NotModelled)
      else Inl NotModelled)"

definition dict_items :: "heap \<Rightarrow> nat \<Rightarrow> (string \<times> nat) list" where
  "dict_items h a = (case get_dict h a of Inr d \<Rightarrow> d | Inl e \<Rightarrow> [])"

text \<open>\<open>d[key]\<close> raises KeyError on a missing key.\<close>

definition get_item :: "heap \<Rightarrow> nat \<Rightarrow> string \<Rightarrow> error + ndarray" where
  "get_item h a key =
     (case get_dict h a of
        Inl e \<Rightarrow> Inl e
      | Inr d \<Rightarrow> (case map_of d key of None \<Rightarrow> Inl KeyError | Some va \<Rightarrow> get_array h va))"

text \<open>\<open>d[key] = v\<close> for a freshly computed array \<open>v\<close>: the array is a new object.\<close>

definition set_item :: "heap \<Rightarrow> nat \<Rightarrow> string \<Rightarrow> ndarray \<Rightarrow> heap" where
  "set_item h a key v =
     (h @ [Array v]) [a := Dict (AList.update key (length h) (dict_items h a))]"

text \<open>\<open>d.copy()\<close>: a new dict object holding the same addresses.\<close>

definition dict_copy :: "heap \<Rightarrow> nat \<Rightarrow> nat \<times> heap" where
  "dict_copy h a = (length h, h @ [Dict (dict_items h a)])"

text \<open>A batch returned by a collaborator enters the store as new objects.\<close>

fun store_fields :: "batch \<Rightarrow> heap \<Rightarrow> (string \<times> nat) list \<times> heap" where
  "store_fields [] h = ([], h)"
| "store_fields ((k, v) # rest) h =
     (let (d, h') = store_fields rest (h @ [Array v]) in ((k, length h) # d, h'))"

definition store_batch :: "batch \<Rightarrow> heap \<Rightarrow> nat \<times> heap" where
  "store_batch b h = (let (d, h') = store_fields b h in (length h', h' @ [Dict d]))"

text \<open>
  \<open>value[mask]\<close> keeps the rows where the mask is true, in order, and raises IndexError
  when the mask is not as long as the array.
\<close>

definition select_rows :: "bool list \<Rightarrow> 'a list \<Rightarrow> 'a list" where
  "select_rows msk xs = map snd (filter fst (zip msk xs))"

definition mask_index :: "bool list \<Rightarrow> ndarray \<Rightarrow> error + ndarray" where
  "mask_index msk v =
     (if length msk \<noteq> np_len v then Inl IndexError
      else Inr (case v of
                  Arr1 xs \<Rightarrow> Arr1 (select_rows msk xs)
                | Arr2 m \<Rightarrow> Arr2 (fst m, select_rows msk (snd m))))"

fun nan_to_num_array :: "ndarray \<Rightarrow> ndarray" where
  "nan_to_num_array (Arr1 xs) = Arr1 xs"
| "nan_to_num_array (Arr2 m) = Arr2 (fst m, map (map (\<lambda>v. Fin (nan_to_num v))) (snd m))"

text \<open>
  \<open>for key, value in d.items(): d[key] = f(value)\<close> on the dict at address \<open>a\<close>. The loop
  assigns to present keys only, so it visits the items the dict had when the loop began.
  An exception leaves the assignments made so far in place.
\<close>

fun filter_items ::
  "(ndarray \<Rightarrow> error + ndarray) \<Rightarrow> (string \<times> nat) list \<Rightarrow> nat \<Rightarrow> heap \<Rightarrow> error option \<times> heap" where
  "filter_items f [] a h = (None, h)"
| "filter_items f ((k, va) # rest) a h =
     (case get_array h va of
        Inl e \<Rightarrow> (Some e, h)
      | Inr v \<Rightarrow>
          (case f v of
             Inl e \<Rightarrow> (Some e, h)
           | Inr v' \<Rightarrow> filter_items f rest a (set_item h a k v')))"

section \<open>The sampling methods (ler.py, \<open>unlensed_cbc_statistics\<close> and \<open>lensed_cbc_statistics\<close>)\<close>

text \<open>
  Both methods resolve the sample count, run the rounds, and store the accumulated batch
  in the instance. Writing the JSON file is left out: it changes no attribute. The second
  component of the result is the trace of round sizes.
\<close>

definition unlensed_cbc_statistics ::
  "'g collaborators \<Rightarrow> int option \<Rightarrow> 'g ler \<Rightarrow> (error + batch \<times> int list) \<times> 'g ler" where
  "unlensed_cbc_statistics C nsamples s =
     (let n = resolve_nsamples nsamples (gw_nsamples s);
          s1 = s \<lparr> gw_nsamples := n \<rparr>;
          (r, g') = cbc_statistics (unlensed_round C) n (batch_size s1) (rng s1)
      in (case r of
            Inl e \<Rightarrow> (Inl e, s1 \<lparr> rng := g' \<rparr>)
          | Inr res \<Rightarrow>
              (let (a, h') = store_batch (fst res) (heap s1)
               in (Inr res, s1 \<lparr> rng := g', heap := h', gw_param := Some a \<rparr>))))"

definition lensed_cbc_statistics ::
  "'g collaborators \<Rightarrow> int option \<Rightarrow> 'g ler \<Rightarrow> (error + batch \<times> int list) \<times> 'g ler" where
  "lensed_cbc_statistics C nsamples s =
     (let n = resolve_nsamples nsamples (lensed_nsamples s);
          s1 = s \<lparr> lensed_nsamples := n \<rparr>;
          (r, g') = cbc_statistics (lensed_round C) n (batch_size s1) (rng s1)
      in (case r of
            Inl e \<Rightarrow> (Inl e, s1 \<lparr> rng := g' \<rparr>)
          | Inr res \<Rightarrow>
              (let (a, h') = store_batch (fst res) (heap s1)
               in (Inr res, s1 \<lparr> rng := g', heap := h', lensed_param := Some a \<rparr>))))"

section \<open>The rate methods (ler.py, \<open>unlensed_rate\<close> and \<open>lensed_rate\<close>)\<close>

text \<open>\<open>np.mean\<close> of an empty array is NaN (with a warning, not an exception).\<close>

fun np_mean :: "real list \<Rightarrow> npfloat" where
  "np_mean [] = NaN"
| "np_mean (x # xs) = Fin (sum_list (x # xs) / real (length (x # xs)))"

fun np_scale :: "real \<Rightarrow> npfloat \<Rightarrow> npfloat" where
  "np_scale c NaN = NaN"
| "np_scale c (Fin x) = Fin (c * x)"

text \<open>
  Lines 306 to 314: sample when nothing is stored, else read the size off the stored
  \<open>'zs'\<close> field (KeyError when it is missing).
\<close>

definition unlensed_ensure_sampled :: "'g collaborators \<Rightarrow> 'g ler \<Rightarrow> error option \<times> 'g ler" where
  "unlensed_ensure_sampled C s =
     (case gw_param s of
        None \<Rightarrow>
          (case unlensed_cbc_statistics C None s of
             (Inl e, s1) \<Rightarrow> (Some e, s1)
           | (Inr r, s1) \<Rightarrow> (None, s1))
      | Some a \<Rightarrow>
          (case get_item (heap s) a ''zs'' of
             Inl e \<Rightarrow> (Some e, s)
           | Inr zs \<Rightarrow> (None, s)))"

text \<open>
  Lines 316 to 345. The signal field of the unlensed population is one-dimensional.
\<close>

definition unlensed_rate_sampled ::
  "'g collaborators \<Rightarrow> real \<Rightarrow> 'g ler \<Rightarrow> (error + npfloat \<times> npfloat) \<times> 'g ler" where
  "unlensed_rate_sampled C snr_threshold s =
     (case gw_param s of
        None \<Rightarrow> (Inl NotModelled, s)
      | Some a \<Rightarrow>
          (let (c, h1) = dict_copy (heap s) a
           in (case get_item h1 c ''opt_snr_net'' of
                 Inl e \<Rightarrow> (Inl e, s \<lparr> heap := h1 \<rparr>)
               | Inr (Arr2 m) \<Rightarrow> (Inl NotModelled, s \<lparr> heap := h1 \<rparr>)
               | Inr (Arr1 snr_net) \<Rightarrow>
                   (let p = map (\<lambda>x. 1 - norm_cdf C (snr_threshold - x)) snr_net;
                        h2 = set_item h1 c ''pdet_net'' (Arr1 p);
                        idx_detectable = map (\<lambda>x. snr_threshold < x) snr_net
                    in (case filter_items (mask_index idx_detectable) (dict_items h2 c) c h2 of
                          (Some e, h3) \<Rightarrow> (Inl e, s \<lparr> heap := h3 \<rparr>)
                        | (None, h3) \<Rightarrow>
                            (let c0 = unlensed_normalization_pdf_z C
                             in (Inr (np_scale c0 (np_mean (map of_bool idx_detectable)),
                                      np_scale c0 (np_mean p)),
                                 s \<lparr> heap := h3, gw_param_detectable := Some c \<rparr>)))))))"

definition unlensed_rate ::
  "'g collaborators \<Rightarrow> real \<Rightarrow> 'g ler \<Rightarrow> (error + npfloat \<times> npfloat) \<times> 'g ler" where
  "unlensed_rate C snr_threshold s =
     (case unlensed_ensure_sampled C s of
        (Some e, s1) \<Rightarrow> (Inl e, s1)
      | (None, s1) \<Rightarrow> unlensed_rate_sampled C snr_threshold s1)"

text \<open>Lines 452 to 459; the sampling call hands on the \<open>size\<close> argument.\<close>

definition lensed_ensure_sampled ::
  "'g collaborators \<Rightarrow> int option \<Rightarrow> 'g ler \<Rightarrow> error option \<times> 'g ler" where
  "lensed_ensure_sampled C size_arg s =
     (case lensed_param s of
        None \<Rightarrow>
          (case lensed_cbc_statistics C size_arg s of
             (Inl e, s1) \<Rightarrow> (Some e, s1)
           | (Inr r, s1) \<Rightarrow> (None, s1))
      | Some a \<Rightarrow>
          (case get_item (heap s) a ''zs'' of
             Inl e \<Rightarrow> (Some e, s)
           | Inr zs \<Rightarrow> (None, s)))"

text \<open>
  Lines 461 to 518. \<open>np.sort(..., axis=1)\<close> raises AxisError on a one-dimensional signal
  field; \<open>pdet\<close> is unbound when the loops consumed no column; the weights are read before
  the fields are filtered, so the means run over all systems.
\<close>

definition lensed_rate_sampled ::
  "'g collaborators \<Rightarrow> real list \<Rightarrow> int list \<Rightarrow> bool \<Rightarrow> 'g ler
     \<Rightarrow> (error + npfloat \<times> npfloat) \<times> 'g ler" where
  "lensed_rate_sampled C snr_threshold num_img none_as_nan s =
     (case lensed_param s of
        None \<Rightarrow> (Inl NotModelled, s)
      | Some a \<Rightarrow>
          (let (c, h1) = dict_copy (heap s) a
           in (case get_item h1 c ''opt_snr_net'' of
                 Inl e \<Rightarrow> (Inl e, s \<lparr> heap := h1 \<rparr>)
               | Inr (Arr1 xs) \<Rightarrow> (Inl AxisError, s \<lparr> heap := h1 \<rparr>)
               | Inr (Arr2 snr_net) \<Rightarrow>
                   (case detection_selection (norm_cdf C) snr_threshold num_img snr_net of
                      Inl e \<Rightarrow> (Inl e, s \<lparr> heap := h1 \<rparr>)
                    | Inr st \<Rightarrow>
                        (case pdet st of
                           None \<Rightarrow> (Inl UnboundLocalError, s \<lparr> heap := h1 \<rparr>)
                         | Some p \<Rightarrow>
                             (let h2 = set_item h1 c ''pdet_net'' (Arr1 p)
                              in (case get_item h2 c ''weights'' of
                                    Inl e \<Rightarrow> (Inl e, s \<lparr> heap := h2 \<rparr>)
                                  | Inr (Arr2 w) \<Rightarrow> (Inl NotModelled, s \<lparr> heap := h2 \<rparr>)
                                  | Inr (Arr1 weights) \<Rightarrow>
                                      (case filter_items
                                              (if none_as_nan then mask_index (snr_hit st)
                                               else (\<lambda>v. map_sum id nan_to_num_array
                                                            (mask_index (snr_hit st) v)))
                                              (dict_items h2 c) c h2 of
                                         (Some e, h3) \<Rightarrow> (Inl e, s \<lparr> heap := h3 \<rparr>)
                                       | (None, h3) \<Rightarrow>
                                           (let c0 = lensed_normalization_pdf_z C
                                            in (Inr (np_scale c0 (np_mean
                                                       (map2 (\<lambda>hit w. of_bool hit * w)
                                                          (snr_hit st) weights)),
                                                     np_scale c0 (np_mean
                                                       (map2 (*) (pdet_combined st) weights))),
                                                s \<lparr> heap := h3,
                                                    lensed_param_detectable := Some c \<rparr>))))))))))"

definition lensed_rate ::
  "'g collaborators \<Rightarrow> int option \<Rightarrow> real list \<Rightarrow> int list \<Rightarrow> bool \<Rightarrow> 'g ler
     \<Rightarrow> (error + npfloat \<times> npfloat) \<times> 'g ler" where
  "lensed_rate C size_arg snr_threshold num_img none_as_nan s =
     (case lensed_ensure_sampled C size_arg s of
        (Some e, s1) \<Rightarrow> (Inl e, s1)
      | (None, s1) \<Rightarrow> lensed_rate_sampled C snr_threshold num_img none_as_nan s1)"

subsection \<open>The rate estimator in the words of the specification\<close>

text \<open>\<open>rate = C0 \<cdot> mean(indicator_or_probability \<cdot> weight)\<close>.\<close>

definition rate_estimate :: "real \<Rightarrow> real list \<Rightarrow> real list \<Rightarrow> npfloat" where
  "rate_estimate c0 xs weights = np_scale c0 (np_mean (map2 (*) xs weights))"

subsection \<open>Devices for stating the accumulation properties\<close>


text \<open>
  Concrete collaborators for evaluating the methods: constant samplers that count their
  calls in the generator state, and signals that depend on the row count only.
\<close>

definition batch_height :: "batch \<Rightarrow> nat" where
  "batch_height b = (case b of [] \<Rightarrow> 0 | kv # rest \<Rightarrow> np_len (snd kv))"

definition demo_collaborators :: "nat collaborators" where
  "demo_collaborators =
     \<lparr> sample_gw_parameters = (\<lambda>n g. ([(''zs'', Arr1 (replicate (nat n) (1 / 2)))], Suc g)),
       snr_calculator = (\<lambda>b. [(''opt_snr_net'', Arr1 (replicate (batch_height b) 9))]),
       sample_lens_parameters = (\<lambda>n g. ([(''zs'', Arr1 (replicate (nat n) 2))], Suc g)),
       get_image_properties =
         (\<lambda>b g. (b @ [(''weights'', Arr1 (replicate (batch_height b) 1))], Suc g)),
       get_lensed_snrs = (\<lambda>b. [(''opt_snr_net'', Arr2 (2, replicate (batch_height b) [Fin 9, NaN]))]),
       unlensed_normalization_pdf_z = 2,
       lensed_normalization_pdf_z = 2,
       norm_cdf = ramp_cdf \<rparr>"



subsection \<open>An instance for evaluating the rate methods\<close>

text \<open>
  An instance whose two populations have been sampled: ten unlensed systems, three of
  them above threshold 8, and the three lensed systems of the ranking example.
\<close>

definition sampled_instance :: "nat ler" where
  "sampled_instance =
     \<lparr> heap =
         [Array (Arr1 (replicate 10 (1 / 2))),
          Array (Arr1 [9, 9, 9, 7, 7, 7, 7, 7, 7, 7]),
          Dict [(''zs'', 0), (''opt_snr_net'', 1)],
          Array (Arr1 [1, 2, 3]),
          Array (Arr2 example_signals),
          Array (Arr1 [1, 1 / 2, 1 / 4]),
          Dict [(''zs'', 3), (''opt_snr_net'', 4), (''weights'', 5)]],
       rng = 0, batch_size = 5, gw_nsamples = 10, lensed_nsamples = 3,
       gw_param = Some 2, gw_param_detectable = None,
       lensed_param = Some 6, lensed_param_detectable = None \<rparr>"

section \<open>Lens parameter sampling (lens_galaxy_parameter_distribution.py)\<close>

text \<open>
  The lens parameters of a round are a dict of one-dimensional arrays. Sizes are counts
  and are naturals here; numpy's samplers reject a negative size.
\<close>

type_synonym params = "(string \<times> real list) list"

text \<open>
  The velocity dispersion sampler is called with the size alone, and, when that call
  fails, with the size and the lens redshifts: it has one of two call shapes.
\<close>

datatype 'g velocity_dispersion_sampler =
  TakesSize "nat \<Rightarrow> 'g \<Rightarrow> real list \<times> 'g"
| TakesSizeAndZl "nat \<Rightarrow> real list \<Rightarrow> 'g \<Rightarrow> real list \<times> 'g"

text \<open>The two rules \<open>lens_functions['strong_lensing_condition']\<close> can name.\<close>

datatype strong_lensing_condition = EinsteinRadius | CrossSection

text \<open>
  The attributes of the class that the sampling routines use. The samplers, the optical
  depth, the distance functions and lenstronomy's ellipticity transform live outside the
  two source files and are parameters; \<open>'g\<close> is the state of the random generator.
  \<open>random_sample n\<close> stands for numpy's generator: \<open>n\<close> numbers of the unit interval.
\<close>

record 'g lens =
  z_max :: real
  sample_zs :: "nat \<Rightarrow> 'g \<Rightarrow> real list \<times> 'g"
  strong_lensing_optical_depth :: "real \<Rightarrow> real"
  random_sample :: "nat \<Rightarrow> 'g \<Rightarrow> real list \<times> 'g"
  sample_lens_redshift :: "real list \<Rightarrow> 'g \<Rightarrow> real list \<times> 'g"
  sample_velocity_dispersion :: "'g velocity_dispersion_sampler"
  sample_axis_ratio :: "real list \<Rightarrow> 'g \<Rightarrow> real list \<times> 'g"
  angular_diameter_distance :: "real \<Rightarrow> real"
  angular_diameter_distance_z1z2 :: "real \<Rightarrow> real \<Rightarrow> real"
  phi_cut_SIE :: "real \<Rightarrow> real"
  rejection_sample_sl :: strong_lensing_condition
  sample_axis_rotation_angle :: "nat \<Rightarrow> 'g \<Rightarrow> real list \<times> 'g"
  phi_q2_ellipticity :: "real \<Rightarrow> real \<Rightarrow> real \<times> real"
  sample_shear :: "nat \<Rightarrow> 'g \<Rightarrow> (real list \<times> real list) \<times> 'g"
  sample_mass_density_spectral_index :: "nat \<Rightarrow> 'g \<Rightarrow> real list \<times> 'g"
  source_parameters_params :: bool
  sample_gw_parameters_default :: "nat \<Rightarrow> 'g \<Rightarrow> params \<times> 'g"
  sample_source_parameters :: "nat \<Rightarrow> params \<Rightarrow> 'g \<Rightarrow> params \<times> 'g"

text \<open>
  \<open>np.random.uniform(low, high, size=n)\<close> is \<open>low + (high - low) * u\<close> for \<open>n\<close> numbers
  \<open>u\<close> of the unit interval.
\<close>

definition np_random_uniform :: "'g lens \<Rightarrow> real \<Rightarrow> real \<Rightarrow> nat \<Rightarrow> 'g \<Rightarrow> real list \<times> 'g" where
  "np_random_uniform L low high n g =
     (let (us, g') = random_sample L n g in (map (\<lambda>u. low + (high - low) * u) us, g'))"

text \<open>
  The contract of the generator: as many numbers as asked for, each in \<open>[0, 1)\<close>. Under
  it the arrays compared elementwise below have equal lengths, as they have in numpy.
\<close>

definition generator_contract :: "'g lens \<Rightarrow> bool" where
  "generator_contract L \<longleftrightarrow>
     (\<forall>n g. length (fst (random_sample L n g)) = n
            \<and> list_all (\<lambda>u. 0 \<le> u \<and> u < 1) (fst (random_sample L n g)))"

subsection \<open>\<open>strongly_lensed_source_redshifts\<close> (lines 552 to 593)\<close>

text \<open>
  The inner function \<open>zs_function\<close> calls itself until the list is long enough. The first
  argument bounds the depth of the recursion, as the interpreter's recursion limit does;
  \<open>None\<close> means that no result was returned within it.
\<close>

fun zs_function :: "nat \<Rightarrow> 'g lens \<Rightarrow> nat \<Rightarrow> real list \<Rightarrow> 'g \<Rightarrow> (real list \<times> 'g) option" where
  "zs_function 0 L sz zs_sl g = None"
| "zs_function (Suc fuel) L sz zs_sl g =
     (let (zs, g1) = sample_zs L sz g;
          tau = map (strong_lensing_optical_depth L) zs;
          tau_max = strong_lensing_optical_depth L (z_max L);
          (r, g2) = np_random_uniform L 0 tau_max (length zs) g1;
          zs_sl = zs_sl @ select_rows (map2 (<) r tau) zs
      in if sz \<le> length zs_sl then Some (take sz zs_sl, g2)
         else zs_function fuel L sz zs_sl g2)"

definition strongly_lensed_source_redshifts ::
  "nat \<Rightarrow> 'g lens \<Rightarrow> nat \<Rightarrow> 'g \<Rightarrow> (real list \<times> 'g) option" where
  "strongly_lensed_source_redshifts fuel L sz g = zs_function fuel L sz [] g"

subsection \<open>The rejection rules (lines 748 to 797)\<close>

text \<open>\<open>np.max\<close> raises ValueError on an empty array.\<close>

definition np_max :: "real list \<Rightarrow> error + real" where
  "np_max xs = (case xs of [] \<Rightarrow> Inl ValueError | x # rest \<Rightarrow> Inr (fold max rest x))"

text \<open>
  \<open>{key: val[mask] for key, val in param_dict.items()}\<close>: every field is indexed with the
  same mask; a field of another length raises IndexError.
\<close>

fun mask_params :: "bool list \<Rightarrow> params \<Rightarrow> error + params" where
  "mask_params msk [] = Inr []"
| "mask_params msk ((k, v) # rest) =
     (if length v \<noteq> length msk then Inl IndexError
      else (case mask_params msk rest of
              Inl e \<Rightarrow> Inl e
            | Inr rest' \<Rightarrow> Inr ((k, select_rows msk v) # rest')))"

definition rjs_with_einstein_radius :: "'g lens \<Rightarrow> params \<Rightarrow> 'g \<Rightarrow> error + params \<times> 'g" where
  "rjs_with_einstein_radius L param_dict g =
     (case map_of param_dict ''theta_E'' of
        None \<Rightarrow> Inl KeyError
      | Some theta_E \<Rightarrow>
          (case np_max theta_E of
             Inl e \<Rightarrow> Inl e
           | Inr theta_E_max \<Rightarrow>
               (let (u, g') = np_random_uniform L 0 (theta_E_max ^ 2) (length theta_E) g;
                    msk = map2 (<) u (map (\<lambda>t. t ^ 2) theta_E)
                in (case mask_params msk param_dict of
                      Inl e \<Rightarrow> Inl e
                    | Inr d \<Rightarrow> Inr (d, g')))))"

text \<open>
  In the cross-section rule \<open>theta_E**2 * phi_cut\<close> multiplies two arrays elementwise;
  arrays of different lengths (numpy would broadcast or raise) are not modelled.
\<close>

definition rjs_with_cross_section :: "'g lens \<Rightarrow> params \<Rightarrow> 'g \<Rightarrow> error + params \<times> 'g" where
  "rjs_with_cross_section L param_dict g =
     (case map_of param_dict ''theta_E'' of
        None \<Rightarrow> Inl KeyError
      | Some theta_E \<Rightarrow>
          (case map_of param_dict ''q'' of
             None \<Rightarrow> Inl KeyError
           | Some q \<Rightarrow>
               (if length theta_E \<noteq> length q then Inl NotModelled
                else
                  (let phi_cut = map (phi_cut_SIE L) q;
                       cross_section = map2 (*) (map (\<lambda>t. t ^ 2) theta_E) phi_cut
                   in (case np_max cross_section of
                         Inl e \<Rightarrow> Inl e
                       | Inr max_ \<Rightarrow>
                           (let (u, g') = np_random_uniform L 0 max_ (length theta_E) g;
                                msk = map2 (<) u cross_section
                            in (case mask_params msk param_dict of
                                  Inl e \<Rightarrow> Inl e
                                | Inr d \<Rightarrow> Inr (d, g'))))))))"

subsection \<open>\<open>sample_all_routine1\<close> (lines 395 to 518)\<close>

text \<open>
  Lines 719 to 746, elementwise: \<open>4 \<pi> (\<sigma>/c)\<^sup>2 D\<^sub>L\<^sub>S / D\<^sub>S\<close> with \<open>c\<close> in km/s. Where \<open>D\<^sub>S\<close> is
  zero numpy yields inf or NaN, which the reals of this model do not have.
\<close>

definition compute_einstein_radii :: "'g lens \<Rightarrow> real list \<Rightarrow> real list \<Rightarrow> real list \<Rightarrow> real list" where
  "compute_einstein_radii L sigma zl zs =
     map (\<lambda>(s, l, z). 4 * pi * (s / 299792.458) ^ 2 * angular_diameter_distance_z1z2 L l z
                       / angular_diameter_distance L z)
         (zip sigma (zip zl zs))"

text \<open>
  Modelled from the spec: \<open>add_dictionaries_together\<close> of \<open>ler/utils\<close>, which is not among the
  source files. It is the specification's \<open>concat\<close>: the field sets must agree
  (SchemaMismatch otherwise), every field is the concatenation with the rows of the first
  argument first, and an empty dict, the initial accumulator, is neutral.
\<close>

definition add_dictionaries_together :: "params \<Rightarrow> params \<Rightarrow> error + params" where
  "add_dictionaries_together dictionary1 dictionary2 =
     (if dictionary1 = [] then Inr dictionary2
      else if dictionary2 = [] then Inr dictionary1
      else if set (map fst dictionary1) \<noteq> set (map fst dictionary2) then Inl SchemaMismatch
      else Inr (map (\<lambda>(k, v). (k, v @ (case map_of dictionary2 k of Some w \<Rightarrow> w | None \<Rightarrow> [])))
                    dictionary1))"

text \<open>
  Modelled from the spec: \<open>trim_dictionary\<close> of \<open>ler/utils\<close>, which is not among the source
  files. It is the specification's \<open>trim\<close>: the first \<open>n\<close> rows of every field.
\<close>

definition trim_dictionary :: "params \<Rightarrow> nat \<Rightarrow> params" where
  "trim_dictionary d n = map (\<lambda>(k, v). (k, take n v)) d"

definition call_rejection_sample_sl :: "'g lens \<Rightarrow> params \<Rightarrow> 'g \<Rightarrow> error + params \<times> 'g" where
  "call_rejection_sample_sl L param_dict g =
     (case rejection_sample_sl L of
        EinsteinRadius \<Rightarrow> rjs_with_einstein_radius L param_dict g
      | CrossSection \<Rightarrow> rjs_with_cross_section L param_dict g)"

text \<open>\<open>del d[key]\<close> raises KeyError on a missing key.\<close>

definition del_item :: "string \<Rightarrow> params \<Rightarrow> error + params" where
  "del_item key d = (if key \<in> set (map fst d) then Inr (AList.delete key d) else Inl KeyError)"

text \<open>
  Lines 436 to 467 of one call: the source redshifts (by the default sampler,
  \<open>strongly_lensed_source_redshifts\<close>), the lens parameters drawn for them, and the
  rejection rule. The result keeps the redshift array \<open>zs\<close> of line 438 beside the
  accepted rows, because line 506 uses it again.
\<close>

definition routine1_candidates ::
  "nat \<Rightarrow> 'g lens \<Rightarrow> nat \<Rightarrow> 'g \<Rightarrow> (error + params \<times> real list \<times> 'g) option" where
  "routine1_candidates fuel L sz g =
     (case strongly_lensed_source_redshifts fuel L sz g of
        None \<Rightarrow> None
      | Some (zs, g1) \<Rightarrow>
          (let (zl, g2) = sample_lens_redshift L zs g1;
               (sigma, g3) = (case sample_velocity_dispersion L of
                                TakesSize f \<Rightarrow> f (length zs) g2
                              | TakesSizeAndZl f \<Rightarrow> f (length zs) zl g2);
               (q, g4) = sample_axis_ratio L sigma g3;
               theta_E = compute_einstein_radii L sigma zl zs;
               lens_parameters =
                 [(''zl'', zl), (''zs'', zs), (''sigma'', sigma), (''q'', q), (''theta_E'', theta_E)]
           in (case call_rejection_sample_sl L lens_parameters g4 of
                 Inl e \<Rightarrow> Some (Inl e)
               | Inr (accepted, g5) \<Rightarrow> Some (Inr (accepted, zs, g5)))))"

text \<open>
  Lines 483 to 518, once the quota is met: trim, draw the parameters that take no part
  in the rejection, then sample the source parameters for the redshift array \<open>zs\<close> and
  merge them in.
\<close>

definition routine1_finish ::
  "'g lens \<Rightarrow> nat \<Rightarrow> real list \<Rightarrow> params \<Rightarrow> 'g \<Rightarrow> error + params \<times> 'g" where
  "routine1_finish L sz zs lens_parameters g =
     (let lens_parameters = trim_dictionary lens_parameters sz;
          (phi, g1) = sample_axis_rotation_angle L sz g;
          lens_parameters = AList.update ''phi'' phi lens_parameters
      in (case map_of lens_parameters ''q'' of
            None \<Rightarrow> Inl KeyError
          | Some q \<Rightarrow>
              (let e = map2 (phi_q2_ellipticity L) phi q;
                   lens_parameters = AList.update ''e1'' (map fst e) lens_parameters;
                   lens_parameters = AList.update ''e2'' (map snd e) lens_parameters;
                   (gammas, g2) = sample_shear L sz g1;
                   lens_parameters = AList.update ''gamma1'' (fst gammas) lens_parameters;
                   lens_parameters = AList.update ''gamma2'' (snd gammas) lens_parameters;
                   (gamma, g3) = sample_mass_density_spectral_index L sz g2;
                   lens_parameters = AList.update ''gamma'' gamma lens_parameters;
                   param = [(''zs'', zs)];
                   (param, g4) = (if source_parameters_params L
                                  then (let (extra, g') = sample_gw_parameters_default L sz g3
                                        in (dict_update param extra, g'))
                                  else (param, g3));
                   (gw_param, g5) = sample_source_parameters L sz param g4;
                   lens_parameters = dict_update lens_parameters gw_param
               in (case del_item ''mass_1'' lens_parameters of
                     Inl e \<Rightarrow> Inl e
                   | Inr lens_parameters \<Rightarrow>
                       (case del_item ''mass_2'' lens_parameters of
                          Inl e \<Rightarrow> Inl e
                        | Inr lens_parameters \<Rightarrow> Inr (lens_parameters, g5))))))"

text \<open>
  The routine calls itself with the rows accepted so far until there are enough of them.
  An absent \<open>lens_parameters_input\<close> is the empty dict.
\<close>

fun sample_all_routine1 ::
  "nat \<Rightarrow> 'g lens \<Rightarrow> nat \<Rightarrow> params \<Rightarrow> 'g \<Rightarrow> (error + params \<times> 'g) option" where
  "sample_all_routine1 0 L sz lens_parameters_input g = None"
| "sample_all_routine1 (Suc fuel) L sz lens_parameters_input g =
     (case routine1_candidates fuel L sz g of
        None \<Rightarrow> None
      | Some (Inl e) \<Rightarrow> Some (Inl e)
      | Some (Inr (accepted, zs, g1)) \<Rightarrow>
          (case add_dictionaries_together accepted lens_parameters_input of
             Inl e \<Rightarrow> Some (Inl e)
           | Inr lens_parameters \<Rightarrow>
               (case map_of lens_parameters ''zl'' of
                  None \<Rightarrow> Some (Inl KeyError)
                | Some zl \<Rightarrow>
                    (if length zl < sz
                     then sample_all_routine1 fuel L sz lens_parameters g1
                     else Some (routine1_finish L sz zs lens_parameters g1)))))"

subsection \<open>Devices for stating the sampler properties\<close>

text \<open>
  One round of \<open>zs_function\<close>: the candidates that pass the optical-depth test, and the
  generator after the round.
\<close>

definition sl_round :: "'g lens \<Rightarrow> nat \<Rightarrow> 'g \<Rightarrow> real list \<times> 'g" where
  "sl_round L sz g =
     (let (zs, g1) = sample_zs L sz g;
          (r, g2) = np_random_uniform L 0 (strong_lensing_optical_depth L (z_max L)) (length zs) g1
      in (select_rows (map2 (<) r (map (strong_lensing_optical_depth L) zs)) zs, g2))"

text \<open>The accepted redshifts of the first \<open>k\<close> rounds, round by round.\<close>

fun sl_rounds :: "nat \<Rightarrow> 'g lens \<Rightarrow> nat \<Rightarrow> 'g \<Rightarrow> real list list \<times> 'g" where
  "sl_rounds 0 L sz g = ([], g)"
| "sl_rounds (Suc k) L sz g =
     (let (a, g1) = sl_round L sz g;
          (rest, g2) = sl_rounds k L sz g1
      in (a # rest, g2))"

text \<open>
  A concrete lens population for evaluating the routines. Only the source-redshift
  sampler advances the generator state, a call counter; every unit draw is 3/4.
\<close>

definition demo_source_parameters :: "nat \<Rightarrow> params \<Rightarrow> params" where
  "demo_source_parameters n param =
     (let zs = (case map_of param ''zs'' of Some z \<Rightarrow> z | None \<Rightarrow> [])
      in [(''mass_1'', map (\<lambda>z. 30 * (1 + z)) zs), (''mass_2'', map (\<lambda>z. 20 * (1 + z)) zs),
          (''mass_1_source'', replicate n 30), (''mass_2_source'', replicate n 20),
          (''zs'', zs), (''luminosity_distance'', map (\<lambda>z. 1000 * z) zs)])"

definition demo_lens :: "nat lens" where
  "demo_lens =
     \<lparr> z_max = 20,
       sample_zs = (\<lambda>n g. (map (\<lambda>i. 14 + real g + 2 * real i) [0..<n], Suc g)),
       strong_lensing_optical_depth = (\<lambda>z. z / 20),
       random_sample = (\<lambda>n g. (replicate n (3 / 4), g)),
       sample_lens_redshift = (\<lambda>zs g. (map (\<lambda>z. z / 2) zs, g)),
       sample_velocity_dispersion = TakesSize (\<lambda>n g. (replicate n 299792.458, g)),
       sample_axis_ratio = (\<lambda>sigma g. (map (\<lambda>s. 1 / 2) sigma, g)),
       angular_diameter_distance = (\<lambda>z. 4 * pi),
       angular_diameter_distance_z1z2 = (\<lambda>zl zs. zs ^ 4),
       phi_cut_SIE = (\<lambda>q. 1),
       rejection_sample_sl = EinsteinRadius,
       sample_axis_rotation_angle = (\<lambda>n g. (replicate n 0, g)),
       phi_q2_ellipticity = (\<lambda>phi q. ((1 - q) / (1 + q), 0)),
       sample_shear = (\<lambda>n g. ((replicate n 0, replicate n 0), g)),
       sample_mass_density_spectral_index = (\<lambda>n g. (replicate n 2, g)),
       source_parameters_params = False,
       sample_gw_parameters_default = (\<lambda>n g. ([], g)),
       sample_source_parameters = (\<lambda>n param g. (demo_source_parameters n param, g)) \<rparr>"

subsection \<open>Devices for stating the rejection rules\<close>

text \<open>The acceptance mask of the Einstein-radius rule for unit draws \<open>us\<close>.\<close>

definition einstein_mask :: "real list \<Rightarrow> real list \<Rightarrow> bool list" where
  "einstein_mask us theta_E = map2 (\<lambda>u t. (Max (set theta_E)) ^ 2 * u < t ^ 2) us theta_E"

text \<open>The weights of the cross-section rule, and its acceptance mask.\<close>

definition cross_section_weights :: "'g lens \<Rightarrow> real list \<Rightarrow> real list \<Rightarrow> real list" where
  "cross_section_weights L theta_E q = map2 (\<lambda>t x. t ^ 2 * phi_cut_SIE L x) theta_E q"

definition cross_section_mask :: "real list \<Rightarrow> real list \<Rightarrow> bool list" where
  "cross_section_mask us ws = map2 (\<lambda>u w. Max (set ws) * u < w) us ws"

text \<open>Every field of the batch has \<open>n\<close> rows.\<close>

definition same_rows :: "nat \<Rightarrow> params \<Rightarrow> bool" where
  "same_rows n d = list_all (\<lambda>kv. length (snd kv) = n) d"

text \<open>
  The five-field batch of the first round of the concrete lens population, and a batch
  whose Einstein radii are all zero (lenses without velocity dispersion).
\<close>

definition demo_batch :: params where
  "demo_batch =
     [(''zl'', [8, 17 / 2]), (''zs'', [16, 17]), (''sigma'', [299792.458, 299792.458]),
      (''q'', [1 / 2, 1 / 2]), (''theta_E'', [65536, 83521])]"

definition zero_batch :: params where
  "zero_batch =
     [(''zl'', [8, 17 / 2]), (''zs'', [16, 17]), (''sigma'', [0, 0]),
      (''q'', [1 / 2, 1 / 2]), (''theta_E'', [0, 0])]"

definition empty_batch :: params where
  "empty_batch = [(''zl'', []), (''zs'', []), (''sigma'', []), (''q'', []), (''theta_E'', [])]"

section \<open>Properties of the detection selection\<close>























section \<open>Properties of the batched accumulation\<close>
























section \<open>Properties of the rate methods\<close>

lemma take_set_item:
  "n \<le> c \<Longrightarrow> n \<le> length h \<Longrightarrow> take n (set_item h c k v) = take n h"
  by (simp add: set_item_def take_update_cancel)

lemma length_set_item: "length (set_item h c k v) = Suc (length h)"
  by (simp add: set_item_def)

lemma filter_items_frame:
  "filter_items f items c h = (r, h') \<Longrightarrow> n \<le> c \<Longrightarrow> n \<le> length h
   \<Longrightarrow> take n h' = take n h \<and> length h \<le> length h'"
proof (induction items arbitrary: h)
  case Nil
  then show ?case by simp
next
  case (Cons kv items)
  obtain k va where kv: "kv = (k, va)" by (cases kv)
  show ?case
  proof (cases "get_array h va")
    case (Inl e)
    then show ?thesis using Cons.prems by (simp add: kv)
  next
    case (Inr v)
    show ?thesis
    proof (cases "f v")
      case (Inl e)
      then show ?thesis using Cons.prems Inr by (simp add: kv)
    next
      case r2: (Inr v')
      have run: "filter_items f items c (set_item h c k v') = (r, h')"
        using Cons.prems(1) Inr r2 by (simp add: kv)
      have "n \<le> length (set_item h c k v')" using Cons.prems(3) by (simp add: length_set_item)
      from Cons.IH [OF run Cons.prems(2) this]
      show ?thesis using take_set_item [OF Cons.prems(2,3)] by (simp add: length_set_item)
    qed
  qed
qed

lemma unlensed_rate_sampled_frame:
  assumes "gw_param s = Some a"
  shows "snd (unlensed_rate_sampled C th s)
           = s \<lparr> heap := heap (snd (unlensed_rate_sampled C th s)),
                 gw_param_detectable := gw_param_detectable (snd (unlensed_rate_sampled C th s)) \<rparr>
         \<and> take (length (heap s)) (heap (snd (unlensed_rate_sampled C th s))) = heap s
         \<and> (\<forall>r. fst (unlensed_rate_sampled C th s) = Inr r
               \<longrightarrow> gw_param_detectable (snd (unlensed_rate_sampled C th s)) = Some (length (heap s)))"
proof -
  let ?n = "length (heap s)"
  let ?h1 = "heap s @ [Dict (dict_items (heap s) a)]"
  have t1: "take ?n ?h1 = heap s" by simp
  show ?thesis
  proof (cases "get_item ?h1 ?n ''opt_snr_net''")
    case (Inl e)
    then show ?thesis using assms by (simp add: unlensed_rate_sampled_def dict_copy_def)
  next
    case (Inr v)
    show ?thesis
    proof (cases v)
      case (Arr2 m)
      then show ?thesis using assms Inr by (simp add: unlensed_rate_sampled_def dict_copy_def)
    next
      case (Arr1 xs)
      let ?p = "map (\<lambda>x. 1 - norm_cdf C (th - x)) xs"
      let ?h2 = "set_item ?h1 ?n ''pdet_net'' (Arr1 ?p)"
      let ?idx = "map (\<lambda>x. th < x) xs"
      obtain r h3 where f: "filter_items (mask_index ?idx) (dict_items ?h2 ?n) ?n ?h2 = (r, h3)"
        by (cases "filter_items (mask_index ?idx) (dict_items ?h2 ?n) ?n ?h2")
      have "?n \<le> length ?h2" by (simp add: length_set_item)
      from filter_items_frame [OF f _ this]
      have "take ?n h3 = take ?n ?h2" by simp
      also have "\<dots> = take ?n ?h1" by (rule take_set_item) simp_all
      finally have t3: "take ?n h3 = heap s" by simp
      show ?thesis using assms Inr Arr1 f t3
        by (cases r) (simp_all add: unlensed_rate_sampled_def dict_copy_def Let_def)
    qed
  qed
qed

lemma lensed_rate_sampled_frame:
  assumes "lensed_param s = Some a"
  shows "snd (lensed_rate_sampled C ths nimg nn s)
           = s \<lparr> heap := heap (snd (lensed_rate_sampled C ths nimg nn s)),
                 lensed_param_detectable := lensed_param_detectable (snd (lensed_rate_sampled C ths nimg nn s)) \<rparr>
         \<and> take (length (heap s)) (heap (snd (lensed_rate_sampled C ths nimg nn s))) = heap s
         \<and> (\<forall>r. fst (lensed_rate_sampled C ths nimg nn s) = Inr r
               \<longrightarrow> lensed_param_detectable (snd (lensed_rate_sampled C ths nimg nn s)) = Some (length (heap s)))"
proof -
  let ?n = "length (heap s)"
  let ?h1 = "heap s @ [Dict (dict_items (heap s) a)]"
  have t1: "take ?n ?h1 = heap s" by simp
  show ?thesis
  proof (cases "get_item ?h1 ?n ''opt_snr_net''")
    case (Inl e)
    then show ?thesis using assms by (simp add: lensed_rate_sampled_def dict_copy_def)
  next
    case (Inr v)
    show ?thesis
    proof (cases v)
      case (Arr1 xs)
      then show ?thesis using assms Inr by (simp add: lensed_rate_sampled_def dict_copy_def)
    next
      case (Arr2 m)
      show ?thesis
      proof (cases "detection_selection (norm_cdf C) ths nimg m")
        case (Inl e)
        then show ?thesis using assms Inr Arr2 by (simp add: lensed_rate_sampled_def dict_copy_def)
      next
        case st: (Inr st)
        show ?thesis
        proof (cases "pdet st")
          case None
          then show ?thesis using assms Inr Arr2 st
            by (simp add: lensed_rate_sampled_def dict_copy_def)
        next
          case (Some p)
          let ?h2 = "set_item ?h1 ?n ''pdet_net'' (Arr1 p)"
          have t2: "take ?n ?h2 = heap s"
          proof -
            have "take ?n ?h2 = take ?n ?h1" by (rule take_set_item) simp_all
            then show ?thesis by simp
          qed
          show ?thesis
          proof (cases "get_item ?h2 ?n ''weights''")
            case (Inl e)
            then show ?thesis using assms Inr Arr2 st Some t2
              by (simp add: lensed_rate_sampled_def dict_copy_def Let_def)
          next
            case w: (Inr wv)
            show ?thesis
            proof (cases wv)
              case w2: (Arr2 wm)
              then show ?thesis using assms Inr Arr2 st Some t2 w
                by (simp add: lensed_rate_sampled_def dict_copy_def Let_def)
            next
              case w1: (Arr1 ws)
              let ?f = "if nn then mask_index (snr_hit st)
                        else (\<lambda>v. map_sum id nan_to_num_array (mask_index (snr_hit st) v))"
              obtain r h3 where f: "filter_items ?f (dict_items ?h2 ?n) ?n ?h2 = (r, h3)"
                by (cases "filter_items ?f (dict_items ?h2 ?n) ?n ?h2")
              have "?n \<le> length ?h2" by (simp add: length_set_item)
              from filter_items_frame [OF f _ this]
              have t3: "take ?n h3 = heap s" using t2 by simp
              show ?thesis using assms Inr Arr2 st Some w w1 f t3
                by (cases r) (simp_all add: lensed_rate_sampled_def dict_copy_def Let_def)
            qed
          qed
        qed
      qed
    qed
  qed
qed

lemma get_item_valid:
  "get_item h a k = Inr v \<Longrightarrow>
   \<exists>d va. get_dict h a = Inr d \<and> map_of d k = Some va \<and> va < length h \<and> h ! va = Array v"
  by (auto simp: get_item_def get_array_def split: sum.splits option.splits if_splits obj.splits)

lemma get_item_copy:
  assumes "get_item h a k = Inr v"
  shows "get_item (h @ [Dict (dict_items h a)]) (length h) k = Inr v"
proof -
  from get_item_valid [OF assms] obtain d va where
    d: "get_dict h a = Inr d" and m: "map_of d k = Some va" and l: "va < length h"
    and x: "h ! va = Array v" by blast
  show ?thesis
    using d m l x by (simp add: get_item_def get_dict_def get_array_def dict_items_def nth_append)
qed

lemma get_dict_is_Dict: "get_dict h a = Inr d \<Longrightarrow> a < length h \<and> h ! a = Dict d"
  by (auto simp: get_dict_def split: if_splits obj.splits)

lemma get_item_set_item_other:
  assumes "get_item h c k' = Inr x" and "k' \<noteq> k"
  shows "get_item (set_item h c k v) c k' = Inr x"
proof -
  from get_item_valid [OF assms(1)] obtain d va where
    d: "get_dict h c = Inr d" and m: "map_of d k' = Some va" and l: "va < length h"
    and x: "h ! va = Array x" by blast
  from get_dict_is_Dict [OF d] have c: "c < length h" and hc: "h ! c = Dict d" by simp_all
  have ne: "va \<noteq> c" using x hc by auto
  have m': "map_of (AList.update k (length h) d) k' = Some va"
    using m assms(2) by (simp add: update_conv')
  show ?thesis
    using c l x ne m' d
    by (simp add: get_item_def get_dict_def get_array_def set_item_def dict_items_def nth_append)
qed

lemma sum_of_bool_filter:
  "sum_list (map of_bool (map P xs)) = (real (length (filter P xs)))"
  by (induction xs) simp_all

lemma map2_mult_ones: "map2 (*) xs (replicate (length xs) (1::real)) = xs"
  by (induction xs) simp_all

lemma map2_of_bool: "map2 (\<lambda>hit w. of_bool hit * (w::real)) hs ws = map2 (*) (map of_bool hs) ws"
  by (induction hs arbitrary: ws) (auto simp: zip_Cons1 split: list.splits)

lemma unlensed_rate_sampled_value:
  assumes a: "gw_param s = Some a"
    and snr: "get_item (heap s) a ''opt_snr_net'' = Inr (Arr1 xs)"
    and run: "fst (unlensed_rate_sampled C th s) = Inr (r1, r2)"
  shows "r1 = np_scale (unlensed_normalization_pdf_z C) (np_mean (map of_bool (map (\<lambda>x. th < x) xs)))"
    and "r2 = np_scale (unlensed_normalization_pdf_z C) (np_mean (map (\<lambda>x. 1 - norm_cdf C (th - x)) xs))"
proof -
  let ?n = "length (heap s)"
  let ?h1 = "heap s @ [Dict (dict_items (heap s) a)]"
  let ?p = "map (\<lambda>x. 1 - norm_cdf C (th - x)) xs"
  let ?h2 = "set_item ?h1 ?n ''pdet_net'' (Arr1 ?p)"
  let ?idx = "map (\<lambda>x. th < x) xs"
  have c: "get_item ?h1 ?n ''opt_snr_net'' = Inr (Arr1 xs)" by (rule get_item_copy [OF snr])
  obtain r h3 where f: "filter_items (mask_index ?idx) (dict_items ?h2 ?n) ?n ?h2 = (r, h3)"
    by (cases "filter_items (mask_index ?idx) (dict_items ?h2 ?n) ?n ?h2")
  have both: "r1 = np_scale (unlensed_normalization_pdf_z C) (np_mean (map of_bool ?idx))
      \<and> r2 = np_scale (unlensed_normalization_pdf_z C) (np_mean ?p)"
    using run a c f by (cases r) (simp_all add: unlensed_rate_sampled_def dict_copy_def Let_def)
  show "r1 = np_scale (unlensed_normalization_pdf_z C) (np_mean (map of_bool (map (\<lambda>x. th < x) xs)))"
    using both by simp
  show "r2 = np_scale (unlensed_normalization_pdf_z C) (np_mean (map (\<lambda>x. 1 - norm_cdf C (th - x)) xs))"
    using both by simp
qed

lemma lensed_rate_sampled_value:
  assumes a: "lensed_param s = Some a"
    and snr: "get_item (heap s) a ''opt_snr_net'' = Inr (Arr2 m)"
    and w: "get_item (heap s) a ''weights'' = Inr (Arr1 ws)"
    and run: "fst (lensed_rate_sampled C ths nimg nn s) = Inr (r1, r2)"
  shows "\<exists>st. detection_selection (norm_cdf C) ths nimg m = Inr st
      \<and> r1 = np_scale (lensed_normalization_pdf_z C) (np_mean (map2 (*) (map of_bool (snr_hit st)) ws))
      \<and> r2 = np_scale (lensed_normalization_pdf_z C) (np_mean (map2 (*) (pdet_combined st) ws))"
proof -
  let ?n = "length (heap s)"
  let ?h1 = "heap s @ [Dict (dict_items (heap s) a)]"
  have c: "get_item ?h1 ?n ''opt_snr_net'' = Inr (Arr2 m)" by (rule get_item_copy [OF snr])
  have cw: "get_item ?h1 ?n ''weights'' = Inr (Arr1 ws)" by (rule get_item_copy [OF w])
  show ?thesis
  proof (cases "detection_selection (norm_cdf C) ths nimg m")
    case (Inl e)
    then show ?thesis using run a c by (simp add: lensed_rate_sampled_def dict_copy_def)
  next
    case st: (Inr st)
    show ?thesis
    proof (cases "pdet st")
      case None
      then show ?thesis using run a c st by (simp add: lensed_rate_sampled_def dict_copy_def)
    next
      case (Some p)
      let ?h2 = "set_item ?h1 ?n ''pdet_net'' (Arr1 p)"
      have w2: "get_item ?h2 ?n ''weights'' = Inr (Arr1 ws)"
        by (rule get_item_set_item_other [OF cw]) simp
      let ?f = "if nn then mask_index (snr_hit st)
                else (\<lambda>v. map_sum id nan_to_num_array (mask_index (snr_hit st) v))"
      obtain r h3 where f: "filter_items ?f (dict_items ?h2 ?n) ?n ?h2 = (r, h3)"
        by (cases "filter_items ?f (dict_items ?h2 ?n) ?n ?h2")
      show ?thesis using run a c st Some w2 f
        by (cases r) (simp_all add: lensed_rate_sampled_def dict_copy_def Let_def map2_of_bool)
    qed
  qed
qed

lemma unlensed_rate_split:
  "fst (unlensed_rate C th s) = Inr r \<Longrightarrow>
   fst (unlensed_rate_sampled C th (snd (unlensed_ensure_sampled C s))) = Inr r"
  by (cases "unlensed_ensure_sampled C s"; cases "fst (unlensed_ensure_sampled C s)")
     (auto simp: unlensed_rate_def)

lemma lensed_rate_split:
  "fst (lensed_rate C sz ths nimg nn s) = Inr r \<Longrightarrow>
   fst (lensed_rate_sampled C ths nimg nn (snd (lensed_ensure_sampled C sz s))) = Inr r"
  by (cases "lensed_ensure_sampled C sz s"; cases "fst (lensed_ensure_sampled C sz s)")
     (auto simp: lensed_rate_def)

lemma unlensed_ensure_sampled_id: "gw_param s = Some a \<Longrightarrow> snd (unlensed_ensure_sampled C s) = s"
  by (simp add: unlensed_ensure_sampled_def split: sum.splits)

lemma lensed_ensure_sampled_id: "lensed_param s = Some a \<Longrightarrow> snd (lensed_ensure_sampled C sz s) = s"
  by (simp add: lensed_ensure_sampled_def split: sum.splits)

lemma unlensed_rate_formula:
  assumes h: "gw_param (snd (unlensed_ensure_sampled C s)) = Some a
      \<and> get_item (heap (snd (unlensed_ensure_sampled C s))) a ''opt_snr_net'' = Inr (Arr1 xs)
      \<and> fst (unlensed_rate C th s) = Inr (rate_step, rate_pdet)"
  shows "rate_step = rate_estimate (unlensed_normalization_pdf_z C)
                       (map of_bool (map (\<lambda>x. th < x) xs)) (replicate (length xs) 1)
        \<and> rate_pdet = rate_estimate (unlensed_normalization_pdf_z C)
                       (map (\<lambda>x. 1 - norm_cdf C (th - x)) xs) (replicate (length xs) 1)
        \<and> (unlensed_normalization_pdf_z C = 2 \<and> length xs = 10
             \<and> length (filter (\<lambda>x. th < x) xs) = 3 \<longrightarrow> rate_step = Fin (6 / 10))
        \<and> (unlensed_normalization_pdf_z C = 2
             \<and> np_mean (map (\<lambda>x. 1 - norm_cdf C (th - x)) xs) = Fin (4 / 10)
             \<longrightarrow> rate_pdet = Fin (8 / 10))"
proof (intro conjI impI)
  let ?s1 = "snd (unlensed_ensure_sampled C s)"
  from h have a: "gw_param ?s1 = Some a"
    and x: "get_item (heap ?s1) a ''opt_snr_net'' = Inr (Arr1 xs)"
    and r: "fst (unlensed_rate_sampled C th ?s1) = Inr (rate_step, rate_pdet)"
    using unlensed_rate_split by blast+
  note v = unlensed_rate_sampled_value [OF a x r]
  show "rate_step = rate_estimate (unlensed_normalization_pdf_z C)
                       (map of_bool (map (\<lambda>x. th < x) xs)) (replicate (length xs) 1)"
    using v(1) map2_mult_ones [of "map of_bool (map (\<lambda>x. th < x) xs)"] by (simp add: rate_estimate_def)
  show "rate_pdet = rate_estimate (unlensed_normalization_pdf_z C)
                       (map (\<lambda>x. 1 - norm_cdf C (th - x)) xs) (replicate (length xs) 1)"
    using v(2) map2_mult_ones [of "map (\<lambda>x. 1 - norm_cdf C (th - x)) xs"] by (simp add: rate_estimate_def)
  show "rate_step = Fin (6 / 10)"
    if e: "unlensed_normalization_pdf_z C = 2 \<and> length xs = 10
             \<and> length (filter (\<lambda>x. th < x) xs) = 3"
  proof -
    from e have ne: "xs \<noteq> []" by auto
    then obtain y ys where ys: "map of_bool (map (\<lambda>x. th < x) xs) = (y # ys :: real list)"
      by (cases xs) auto
    have "sum_list (y # ys) = 3" and "length (y # ys) = 10"
      using e sum_of_bool_filter [of "\<lambda>x. th < x" xs] ys [symmetric] by simp_all
    then have "np_mean (map of_bool (map (\<lambda>x. th < x) xs)) = Fin (3 / 10)"
      unfolding ys by (simp only: np_mean.simps) simp
    then show ?thesis using v(1) e by simp
  qed
  show "rate_pdet = Fin (8 / 10)"
    if e: "unlensed_normalization_pdf_z C = 2
             \<and> np_mean (map (\<lambda>x. 1 - norm_cdf C (th - x)) xs) = Fin (4 / 10)"
    using v(2) e by simp
qed

lemma lensed_rate_formula:
  assumes h: "lensed_param (snd (lensed_ensure_sampled C sz s)) = Some a
      \<and> get_item (heap (snd (lensed_ensure_sampled C sz s))) a ''opt_snr_net'' = Inr (Arr2 m)
      \<and> get_item (heap (snd (lensed_ensure_sampled C sz s))) a ''weights'' = Inr (Arr1 ws)
      \<and> fst (lensed_rate C sz ths nimg nn s) = Inr (rate_step, rate_pdet)"
  shows "\<exists>st. detection_selection (norm_cdf C) ths nimg m = Inr st
          \<and> rate_step = rate_estimate (lensed_normalization_pdf_z C) (map of_bool (snr_hit st)) ws
          \<and> rate_pdet = rate_estimate (lensed_normalization_pdf_z C) (pdet_combined st) ws"
proof -
  let ?s1 = "snd (lensed_ensure_sampled C sz s)"
  from h have a: "lensed_param ?s1 = Some a"
    and x: "get_item (heap ?s1) a ''opt_snr_net'' = Inr (Arr2 m)"
    and w: "get_item (heap ?s1) a ''weights'' = Inr (Arr1 ws)"
    and r: "fst (lensed_rate_sampled C ths nimg nn ?s1) = Inr (rate_step, rate_pdet)"
    using lensed_rate_split by blast+
  from lensed_rate_sampled_value [OF a x w r]
  show ?thesis by (simp add: rate_estimate_def)
qed

text \<open>
  Claim C4. Every rate estimate returned by \<open>unlensed_rate\<close> and \<open>lensed_rate\<close> equals
  \<open>C0 \<cdot> mean(indicator_or_probability \<cdot> weight)\<close>: in the unlensed case the weight is 1 for
  every system, in the lensed case it is the stored \<open>'weights'\<close> field, the indicator is the
  hit mask and the probability the joint detection probability. Hence with \<open>C0 = 2\<close>, ten
  systems of which exactly three are above threshold give the step rate 0.6, and
  detection probabilities of mean 0.4 give the rate 0.8.
\<close>

theorem rate_formula:
  "(gw_param (snd (unlensed_ensure_sampled C s)) = Some a
      \<and> get_item (heap (snd (unlensed_ensure_sampled C s))) a ''opt_snr_net'' = Inr (Arr1 xs)
      \<and> fst (unlensed_rate C th s) = Inr (rate_step, rate_pdet)
    \<longrightarrow> rate_step = rate_estimate (unlensed_normalization_pdf_z C)
                       (map of_bool (map (\<lambda>x. th < x) xs)) (replicate (length xs) 1)
        \<and> rate_pdet = rate_estimate (unlensed_normalization_pdf_z C)
                       (map (\<lambda>x. 1 - norm_cdf C (th - x)) xs) (replicate (length xs) 1)
        \<and> (unlensed_normalization_pdf_z C = 2 \<and> length xs = 10
             \<and> length (filter (\<lambda>x. th < x) xs) = 3 \<longrightarrow> rate_step = Fin (6 / 10))
        \<and> (unlensed_normalization_pdf_z C = 2
             \<and> np_mean (map (\<lambda>x. 1 - norm_cdf C (th - x)) xs) = Fin (4 / 10)
             \<longrightarrow> rate_pdet = Fin (8 / 10)))
   \<and> (lensed_param (snd (lensed_ensure_sampled C sz s)) = Some a
      \<and> get_item (heap (snd (lensed_ensure_sampled C sz s))) a ''opt_snr_net'' = Inr (Arr2 m)
      \<and> get_item (heap (snd (lensed_ensure_sampled C sz s))) a ''weights'' = Inr (Arr1 ws)
      \<and> fst (lensed_rate C sz ths nimg nn s) = Inr (rate_step, rate_pdet)
    \<longrightarrow> (\<exists>st. detection_selection (norm_cdf C) ths nimg m = Inr st
          \<and> rate_step = rate_estimate (lensed_normalization_pdf_z C) (map of_bool (snr_hit st)) ws
          \<and> rate_pdet = rate_estimate (lensed_normalization_pdf_z C) (pdet_combined st) ws))"
  by (rule conjI; rule impI) (erule unlensed_rate_formula, erule lensed_rate_formula)

text \<open>
  Claim C10. On an already sampled population, \<open>unlensed_rate\<close> (respectively
  \<open>lensed_rate\<close>) changes no attribute of the instance other than
  \<open>gw_param_detectable\<close> (respectively \<open>lensed_param_detectable\<close>), and every object that
  existed before the call, the stored dict and all its arrays among them, is the same
  after it, whether the call returns or raises. The filtering works on a copy: when the
  call returns, the detectable attribute holds the address of a dict object created by
  the call.
\<close>

theorem rate_calculation_frame:
  "(gw_param s = Some a
    \<longrightarrow> snd (unlensed_rate C th s)
          = s \<lparr> heap := heap (snd (unlensed_rate C th s)),
                gw_param_detectable := gw_param_detectable (snd (unlensed_rate C th s)) \<rparr>
        \<and> take (length (heap s)) (heap (snd (unlensed_rate C th s))) = heap s
        \<and> (\<forall>r. fst (unlensed_rate C th s) = Inr r
              \<longrightarrow> gw_param_detectable (snd (unlensed_rate C th s)) = Some (length (heap s))))
   \<and> (lensed_param s = Some a
    \<longrightarrow> snd (lensed_rate C sz ths nimg nn s)
          = s \<lparr> heap := heap (snd (lensed_rate C sz ths nimg nn s)),
                lensed_param_detectable :=
                  lensed_param_detectable (snd (lensed_rate C sz ths nimg nn s)) \<rparr>
        \<and> take (length (heap s)) (heap (snd (lensed_rate C sz ths nimg nn s))) = heap s
        \<and> (\<forall>r. fst (lensed_rate C sz ths nimg nn s) = Inr r
              \<longrightarrow> lensed_param_detectable (snd (lensed_rate C sz ths nimg nn s))
                    = Some (length (heap s))))"
proof (rule conjI; rule impI)
  assume a: "gw_param s = Some a"
  show "snd (unlensed_rate C th s)
          = s \<lparr> heap := heap (snd (unlensed_rate C th s)),
                gw_param_detectable := gw_param_detectable (snd (unlensed_rate C th s)) \<rparr>
        \<and> take (length (heap s)) (heap (snd (unlensed_rate C th s))) = heap s
        \<and> (\<forall>r. fst (unlensed_rate C th s) = Inr r
              \<longrightarrow> gw_param_detectable (snd (unlensed_rate C th s)) = Some (length (heap s)))"
  proof (cases "get_item (heap s) a ''zs''")
    case (Inl e)
    then show ?thesis using a by (simp add: unlensed_rate_def unlensed_ensure_sampled_def)
  next
    case (Inr zs)
    then have "unlensed_rate C th s = unlensed_rate_sampled C th s"
      using a by (simp add: unlensed_rate_def unlensed_ensure_sampled_def)
    then show ?thesis using unlensed_rate_sampled_frame [OF a, of C th] by simp
  qed
next
  assume a: "lensed_param s = Some a"
  show "snd (lensed_rate C sz ths nimg nn s)
          = s \<lparr> heap := heap (snd (lensed_rate C sz ths nimg nn s)),
                lensed_param_detectable :=
                  lensed_param_detectable (snd (lensed_rate C sz ths nimg nn s)) \<rparr>
        \<and> take (length (heap s)) (heap (snd (lensed_rate C sz ths nimg nn s))) = heap s
        \<and> (\<forall>r. fst (lensed_rate C sz ths nimg nn s) = Inr r
              \<longrightarrow> lensed_param_detectable (snd (lensed_rate C sz ths nimg nn s))
                    = Some (length (heap s)))"
  proof (cases "get_item (heap s) a ''zs''")
    case (Inl e)
    then show ?thesis using a by (simp add: lensed_rate_def lensed_ensure_sampled_def)
  next
    case (Inr zs)
    then have "lensed_rate C sz ths nimg nn s = lensed_rate_sampled C ths nimg nn s"
      using a by (simp add: lensed_rate_def lensed_ensure_sampled_def)
    then show ?thesis using lensed_rate_sampled_frame [OF a, of C ths nimg nn] by simp
  qed
qed

lemma sampled_unlensed_rate:
  "fst (unlensed_rate demo_collaborators 8 sampled_instance) = Inr (Fin (6 / 10), Fin (8 / 10))"
  by code_simp

lemma sampled_lensed_rate:
  "fst (lensed_rate demo_collaborators None [8, 5] [1, 1] True sampled_instance)
   = Inr (Fin (2 / 3), Fin (2141 / 4320))"
  by code_simp

lemma sampled_unlensed_reads:
  "gw_param (snd (unlensed_ensure_sampled demo_collaborators sampled_instance)) = Some 2
   \<and> get_item (heap (snd (unlensed_ensure_sampled demo_collaborators sampled_instance))) 2 ''opt_snr_net''
       = Inr (Arr1 [9, 9, 9, 7, 7, 7, 7, 7, 7, 7])"
  by code_simp

lemma sampled_lensed_reads:
  "lensed_param (snd (lensed_ensure_sampled demo_collaborators None sampled_instance)) = Some 6
   \<and> get_item (heap (snd (lensed_ensure_sampled demo_collaborators None sampled_instance))) 6 ''opt_snr_net''
       = Inr (Arr2 example_signals)
   \<and> get_item (heap (snd (lensed_ensure_sampled demo_collaborators None sampled_instance))) 6 ''weights''
       = Inr (Arr1 [1, 1 / 2, 1 / 4])"
  by code_simp

lemma sampled_example_facts:
  "unlensed_normalization_pdf_z demo_collaborators = 2
   \<and> length [9, 9, 9, 7, 7, 7, 7, 7, 7, 7 :: real] = 10
   \<and> length (filter (\<lambda>x. 8 < x) [9, 9, 9, 7, 7, 7, 7, 7, 7, 7 :: real]) = 3
   \<and> np_mean (map (\<lambda>x. 1 - norm_cdf demo_collaborators (8 - x)) [9, 9, 9, 7, 7, 7, 7, 7, 7, 7])
       = Fin (4 / 10)"
  by code_simp

theorem rate_formula_witness:
  "gw_param (snd (unlensed_ensure_sampled demo_collaborators sampled_instance)) = Some 2
   \<and> get_item (heap (snd (unlensed_ensure_sampled demo_collaborators sampled_instance))) 2 ''opt_snr_net''
       = Inr (Arr1 [9, 9, 9, 7, 7, 7, 7, 7, 7, 7])
   \<and> fst (unlensed_rate demo_collaborators 8 sampled_instance) = Inr (Fin (6 / 10), Fin (8 / 10))
   \<and> unlensed_normalization_pdf_z demo_collaborators = 2
   \<and> length [9, 9, 9, 7, 7, 7, 7, 7, 7, 7 :: real] = 10
   \<and> length (filter (\<lambda>x. 8 < x) [9, 9, 9, 7, 7, 7, 7, 7, 7, 7 :: real]) = 3
   \<and> np_mean (map (\<lambda>x. 1 - norm_cdf demo_collaborators (8 - x)) [9, 9, 9, 7, 7, 7, 7, 7, 7, 7])
       = Fin (4 / 10)
   \<and> Fin (6 / 10) = rate_estimate 2 (map of_bool (map (\<lambda>x. 8 < x) [9, 9, 9, 7, 7, 7, 7, 7, 7, 7 :: real]))
                       (replicate 10 1)
   \<and> lensed_param (snd (lensed_ensure_sampled demo_collaborators None sampled_instance)) = Some 6
   \<and> get_item (heap (snd (lensed_ensure_sampled demo_collaborators None sampled_instance))) 6 ''opt_snr_net''
       = Inr (Arr2 example_signals)
   \<and> get_item (heap (snd (lensed_ensure_sampled demo_collaborators None sampled_instance))) 6 ''weights''
       = Inr (Arr1 [1, 1 / 2, 1 / 4])
   \<and> fst (lensed_rate demo_collaborators None [8, 5] [1, 1] True sampled_instance)
       = Inr (Fin (2 / 3), Fin (2141 / 4320))
   \<and> (\<exists>st. detection_selection ramp_cdf [8, 5] [1, 1] example_signals = Inr st
         \<and> Fin (2 / 3) = rate_estimate 2 (map of_bool (snr_hit st)) [1, 1 / 2, 1 / 4]
         \<and> Fin (2141 / 4320) = rate_estimate 2 (pdet_combined st) [1, 1 / 2, 1 / 4])"
proof -
  note u = rate_formula [where C = demo_collaborators and s = sampled_instance and a = 2
      and xs = "[9, 9, 9, 7, 7, 7, 7, 7, 7, 7]" and th = 8
      and rate_step = "Fin (6 / 10)" and rate_pdet = "Fin (8 / 10)", THEN conjunct1, rule_format]
  note l = rate_formula [where C = demo_collaborators and s = sampled_instance and a = 6
      and sz = None and m = example_signals and ws = "[1, 1 / 2, 1 / 4]"
      and ths = "[8, 5]" and nimg = "[1, 1]" and nn = True
      and rate_step = "Fin (2 / 3)" and rate_pdet = "Fin (2141 / 4320)", THEN conjunct2, rule_format]
  have c0: "unlensed_normalization_pdf_z demo_collaborators = 2"
    "lensed_normalization_pdf_z demo_collaborators = 2" "norm_cdf demo_collaborators = ramp_cdf"
    by (simp_all add: demo_collaborators_def)
  have len: "length [9, 9, 9, 7, 7, 7, 7, 7, 7, 7 :: real] = 10" by simp
  have hu: "gw_param (snd (unlensed_ensure_sampled demo_collaborators sampled_instance)) = Some 2
      \<and> get_item (heap (snd (unlensed_ensure_sampled demo_collaborators sampled_instance))) 2 ''opt_snr_net''
          = Inr (Arr1 [9, 9, 9, 7, 7, 7, 7, 7, 7, 7])
      \<and> fst (unlensed_rate demo_collaborators 8 sampled_instance) = Inr (Fin (6 / 10), Fin (8 / 10))"
    using sampled_unlensed_reads sampled_unlensed_rate by blast
  have a: "Fin (6 / 10) = rate_estimate 2 (map of_bool (map (\<lambda>x. 8 < x) [9, 9, 9, 7, 7, 7, 7, 7, 7, 7 :: real]))
                       (replicate 10 1)"
    using u [OF hu, THEN conjunct1] by (simp only: c0 len)
  have hl: "lensed_param (snd (lensed_ensure_sampled demo_collaborators None sampled_instance)) = Some 6
      \<and> get_item (heap (snd (lensed_ensure_sampled demo_collaborators None sampled_instance))) 6 ''opt_snr_net''
          = Inr (Arr2 example_signals)
      \<and> get_item (heap (snd (lensed_ensure_sampled demo_collaborators None sampled_instance))) 6 ''weights''
          = Inr (Arr1 [1, 1 / 2, 1 / 4])
      \<and> fst (lensed_rate demo_collaborators None [8, 5] [1, 1] True sampled_instance)
          = Inr (Fin (2 / 3), Fin (2141 / 4320))"
    using sampled_lensed_reads sampled_lensed_rate by blast
  have b: "\<exists>st. detection_selection ramp_cdf [8, 5] [1, 1] example_signals = Inr st
         \<and> Fin (2 / 3) = rate_estimate 2 (map of_bool (snr_hit st)) [1, 1 / 2, 1 / 4]
         \<and> Fin (2141 / 4320) = rate_estimate 2 (pdet_combined st) [1, 1 / 2, 1 / 4]"
    using l [OF hl] by (simp only: c0)
  show ?thesis
    using a b sampled_unlensed_reads sampled_unlensed_rate sampled_lensed_reads sampled_lensed_rate
      sampled_example_facts by blast
qed

lemma sampled_frame_facts:
  "gw_param sampled_instance = Some 2 \<and> lensed_param sampled_instance = Some 6
   \<and> length (heap sampled_instance) = 7"
  by code_simp

theorem rate_calculation_frame_witness:
  "gw_param sampled_instance = Some 2 \<and> lensed_param sampled_instance = Some 6
   \<and> fst (unlensed_rate demo_collaborators 8 sampled_instance) = Inr (Fin (6 / 10), Fin (8 / 10))
   \<and> fst (lensed_rate demo_collaborators None [8, 5] [1, 1] True sampled_instance)
       = Inr (Fin (2 / 3), Fin (2141 / 4320))
   \<and> gw_param (snd (unlensed_rate demo_collaborators 8 sampled_instance)) = Some 2
   \<and> take 7 (heap (snd (unlensed_rate demo_collaborators 8 sampled_instance))) = heap sampled_instance
   \<and> gw_param_detectable (snd (unlensed_rate demo_collaborators 8 sampled_instance)) = Some 7
   \<and> lensed_param (snd (lensed_rate demo_collaborators None [8, 5] [1, 1] True sampled_instance)) = Some 6
   \<and> take 7 (heap (snd (lensed_rate demo_collaborators None [8, 5] [1, 1] True sampled_instance)))
       = heap sampled_instance
   \<and> lensed_param_detectable (snd (lensed_rate demo_collaborators None [8, 5] [1, 1] True sampled_instance))
       = Some 7"
proof -
  note u = rate_calculation_frame [where s = sampled_instance and a = 2 and C = demo_collaborators
      and th = 8, THEN conjunct1, rule_format]
  note l = rate_calculation_frame [where s = sampled_instance and a = 6 and C = demo_collaborators
      and sz = None and ths = "[8, 5]" and nimg = "[1, 1]" and nn = True, THEN conjunct2, rule_format]
  have g: "gw_param sampled_instance = Some 2" and lp: "lensed_param sampled_instance = Some 6"
    and n: "length (heap sampled_instance) = 7"
    using sampled_frame_facts by simp_all
  let ?u = "snd (unlensed_rate demo_collaborators 8 sampled_instance)"
  let ?l = "snd (lensed_rate demo_collaborators None [8, 5] [1, 1] True sampled_instance)"
  note uu = u [OF g, unfolded n]
  have u1: "?u = sampled_instance \<lparr> heap := heap ?u, gw_param_detectable := gw_param_detectable ?u \<rparr>"
    by (rule uu [THEN conjunct1])
  have u2: "take 7 (heap ?u) = heap sampled_instance"
    by (rule uu [THEN conjunct2, THEN conjunct1])
  have u3: "gw_param_detectable ?u = Some 7"
    using uu [THEN conjunct2, THEN conjunct2] sampled_unlensed_rate by blast
  have u4: "gw_param ?u = Some 2" by (subst u1) (simp add: g)
  note ll = l [OF lp, unfolded n]
  have l1: "?l = sampled_instance \<lparr> heap := heap ?l, lensed_param_detectable := lensed_param_detectable ?l \<rparr>"
    by (rule ll [THEN conjunct1])
  have l2: "take 7 (heap ?l) = heap sampled_instance"
    by (rule ll [THEN conjunct2, THEN conjunct1])
  have l3: "lensed_param_detectable ?l = Some 7"
    using ll [THEN conjunct2, THEN conjunct2] sampled_lensed_rate by blast
  have l4: "lensed_param ?l = Some 6" by (subst l1) (simp add: lp)
  show ?thesis
    using g lp u2 u3 u4 l2 l3 l4 sampled_unlensed_rate sampled_lensed_rate by simp
qed

section \<open>Properties of the strongly-lensed redshift sampler\<close>

lemma zs_function_round:
  "zs_function (Suc fuel) L sz acc g =
     (let (a, g2) = sl_round L sz g
      in if sz \<le> length (acc @ a) then Some (take sz (acc @ a), g2)
         else zs_function fuel L sz (acc @ a) g2)"
  by (simp add: sl_round_def Let_def split: prod.splits)

lemma sl_rounds_Suc:
  "fst (sl_rounds (Suc k) L sz g)
     = fst (sl_round L sz g) # fst (sl_rounds k L sz (snd (sl_round L sz g)))"
  "snd (sl_rounds (Suc k) L sz g) = snd (sl_rounds k L sz (snd (sl_round L sz g)))"
  by (simp_all add: Let_def split: prod.splits)

lemma zs_function_rounds:
  "(j = 0 \<or> length acc + length (concat (fst (sl_rounds j L sz g))) < sz) \<Longrightarrow>
   sz \<le> length acc + length (concat (fst (sl_rounds (Suc j) L sz g))) \<Longrightarrow> j < fuel \<Longrightarrow>
   zs_function fuel L sz acc g
     = Some (take sz (acc @ concat (fst (sl_rounds (Suc j) L sz g))), snd (sl_rounds (Suc j) L sz g))"
proof (induction j arbitrary: fuel acc g)
  case 0
  obtain f where f: "fuel = Suc f" using "0.prems"(3) by (cases fuel) auto
  obtain a g2 where r: "sl_round L sz g = (a, g2)" by (cases "sl_round L sz g")
  show ?case using "0.prems"(2) by (simp add: f zs_function_round r del: zs_function.simps)
next
  case (Suc j)
  obtain f where f: "fuel = Suc f" using Suc.prems(3) by (cases fuel) auto
  obtain a g2 where r: "sl_round L sz g = (a, g2)" by (cases "sl_round L sz g")
  obtain rest g3 where rs: "sl_rounds j L sz g2 = (rest, g3)" by (cases "sl_rounds j L sz g2")
  obtain a' g4 where r': "sl_round L sz g3 = (a', g4)" by (cases "sl_round L sz g3")
  have unf: "fst (sl_rounds (Suc j) L sz g) = a # fst (sl_rounds j L sz g2)"
    by (simp add: sl_rounds_Suc r del: sl_rounds.simps)
  have unf2: "fst (sl_rounds (Suc (Suc j)) L sz g) = a # fst (sl_rounds (Suc j) L sz g2)"
    "snd (sl_rounds (Suc (Suc j)) L sz g) = snd (sl_rounds (Suc j) L sz g2)"
    by (simp_all add: sl_rounds_Suc [of "Suc j"] r del: sl_rounds.simps)
  have lt: "length (acc @ a) + length (concat (fst (sl_rounds j L sz g2))) < sz"
    using Suc.prems(1) unfolding unf by simp
  then have notyet: "\<not> sz \<le> length (acc @ a)" by simp
  have ge: "sz \<le> length (acc @ a) + length (concat (fst (sl_rounds (Suc j) L sz g2)))"
    using Suc.prems(2) unfolding unf2 by simp
  have jf: "j < f" using Suc.prems(3) f by simp
  have "zs_function f L sz (acc @ a) g2
     = Some (take sz ((acc @ a) @ concat (fst (sl_rounds (Suc j) L sz g2))),
             snd (sl_rounds (Suc j) L sz g2))"
    by (rule Suc.IH [OF _ ge jf]) (use lt in simp)
  then show ?case
    using notyet unfolding unf2 f by (simp add: zs_function_round r del: zs_function.simps sl_rounds.simps)
qed

lemma strongly_lensed_result:
  assumes "j = 0 \<or> length (concat (fst (sl_rounds j L sz g))) < sz"
    and "sz \<le> length (concat (fst (sl_rounds (Suc j) L sz g)))" and "j < fuel"
  shows "strongly_lensed_source_redshifts fuel L sz g
     = Some (take sz (concat (fst (sl_rounds (Suc j) L sz g))), snd (sl_rounds (Suc j) L sz g))"
  using zs_function_rounds [of j "[]" L sz g fuel] assms
  by (simp add: strongly_lensed_source_redshifts_def)

lemma sl_rounds_mono:
  "length (concat (fst (sl_rounds j L sz g))) \<le> length (concat (fst (sl_rounds (Suc j) L sz g)))"
proof (induction j arbitrary: g)
  case 0
  then show ?case by simp
next
  case (Suc j)
  show ?case using Suc.IH [of "snd (sl_round L sz g)"]
    by (simp add: sl_rounds_Suc del: sl_rounds.simps)
qed

lemma strongly_lensed_returns:
  "sz \<le> length (concat (fst (sl_rounds k L sz g))) \<Longrightarrow> 1 \<le> k \<Longrightarrow> k \<le> fuel \<Longrightarrow>
   \<exists>zs g'. strongly_lensed_source_redshifts fuel L sz g = Some (zs, g') \<and> length zs = sz"
proof (induction k)
  case 0
  then show ?case by simp
next
  case (Suc k)
  show ?case
  proof (cases "k = 0 \<or> length (concat (fst (sl_rounds k L sz g))) < sz")
    case True
    have "k < fuel" using Suc.prems(3) by simp
    from strongly_lensed_result [OF True Suc.prems(1) this]
    show ?thesis using Suc.prems(1) by simp
  next
    case False
    then have "sz \<le> length (concat (fst (sl_rounds k L sz g)))" and "1 \<le> k" by simp_all
    then show ?thesis using Suc.IH Suc.prems(3) by simp
  qed
qed

lemma upt_2: "[0..<2] = [0, 1]" by (simp add: upt_rec numeral_2_eq_2)

lemma demo_sl0:
  "strongly_lensed_source_redshifts (Suc (Suc f)) demo_lens 2 0 = Some ([16, 17], Suc (Suc 0))"
  by (simp add: strongly_lensed_source_redshifts_def demo_lens_def np_random_uniform_def
      select_rows_def upt_2 Let_def)

lemma demo_sl1:
  "strongly_lensed_source_redshifts (Suc f) demo_lens 2 (Suc (Suc 0)) = Some ([16, 18], Suc (Suc (Suc 0)))"
  by (simp add: strongly_lensed_source_redshifts_def demo_lens_def np_random_uniform_def
      select_rows_def upt_2 Let_def)

lemma demo_theta: "compute_einstein_radii demo_lens sigma zl zs
   = map (\<lambda>(s, l, z). (s / 299792.458) ^ 2 * z ^ 4) (zip sigma (zip zl zs))"
  by (simp add: compute_einstein_radii_def demo_lens_def)

lemma demo_fields:
  "sample_lens_redshift demo_lens zs g = (map (\<lambda>z. z / 2) zs, g)"
  "sample_velocity_dispersion demo_lens = TakesSize (\<lambda>n g. (replicate n 299792.458, g))"
  "sample_axis_ratio demo_lens sigma g = (map (\<lambda>s. 1 / 2) sigma, g)"
  "rejection_sample_sl demo_lens = EinsteinRadius"
  "random_sample demo_lens n g = (replicate n (3 / 4), g)"
  by (simp_all add: demo_lens_def)

lemma demo_rjs:
  "3 / 4 * (max t1 t2) ^ 2 \<ge> t1 ^ 2 \<Longrightarrow> 3 / 4 * (max t1 t2) ^ 2 < t2 ^ 2 \<Longrightarrow>
   rjs_with_einstein_radius demo_lens
     [(''zl'', [a1, a2]), (''zs'', [b1, b2]), (''sigma'', [c1, c2]),
      (''q'', [d1, d2]), (''theta_E'', [t1, t2])] g
   = Inr ([(''zl'', [a2]), (''zs'', [b2]), (''sigma'', [c2]), (''q'', [d2]),
           (''theta_E'', [t2])], g)"
  by (simp add: rjs_with_einstein_radius_def np_max_def np_random_uniform_def demo_fields
      select_rows_def numeral_2_eq_2 max.commute)

lemma demo_c0: "routine1_candidates (Suc (Suc f)) demo_lens 2 0
  = Some (Inr ([(''zl'', [17 / 2]), (''zs'', [17]), (''sigma'', [299792.458]), (''q'', [1 / 2]),
                (''theta_E'', [83521])], [16, 17], Suc (Suc 0)))"
  by (simp add: routine1_candidates_def demo_sl0 demo_theta demo_fields
      call_rejection_sample_sl_def demo_rjs)

lemma demo_c1: "routine1_candidates (Suc f) demo_lens 2 (Suc (Suc 0))
  = Some (Inr ([(''zl'', [9]), (''zs'', [18]), (''sigma'', [299792.458]), (''q'', [1 / 2]),
                (''theta_E'', [104976])], [16, 18], Suc (Suc (Suc 0))))"
  by (simp add: routine1_candidates_def demo_sl1 demo_theta demo_fields
      call_rejection_sample_sl_def demo_rjs)

lemma demo_finish:
  "routine1_finish demo_lens 2 [16, 18]
     [(''zl'', [9, 17 / 2]), (''zs'', [18, 17]), (''sigma'', [299792.458, 299792.458]),
      (''q'', [1 / 2, 1 / 2]), (''theta_E'', [104976, 83521])] g
   = Inr ([(''zl'', [9, 17 / 2]), (''zs'', [16, 18]), (''sigma'', [299792.458, 299792.458]),
           (''q'', [1 / 2, 1 / 2]), (''theta_E'', [104976, 83521]), (''phi'', [0, 0]),
           (''e1'', [1 / 3, 1 / 3]), (''e2'', [0, 0]), (''gamma1'', [0, 0]), (''gamma2'', [0, 0]),
           (''gamma'', [2, 2]), (''mass_1_source'', [30, 30]), (''mass_2_source'', [20, 20]),
           (''luminosity_distance'', [16000, 18000])], g)"
  by (simp add: routine1_finish_def trim_dictionary_def demo_lens_def demo_source_parameters_def
      dict_update_def del_item_def Let_def numeral_2_eq_2)

lemma demo_routine1:
  "sample_all_routine1 (Suc (Suc (Suc f))) demo_lens 2 [] 0
   = Some (Inr ([(''zl'', [9, 17 / 2]), (''zs'', [16, 18]), (''sigma'', [299792.458, 299792.458]),
           (''q'', [1 / 2, 1 / 2]), (''theta_E'', [104976, 83521]), (''phi'', [0, 0]),
           (''e1'', [1 / 3, 1 / 3]), (''e2'', [0, 0]), (''gamma1'', [0, 0]), (''gamma2'', [0, 0]),
           (''gamma'', [2, 2]), (''mass_1_source'', [30, 30]), (''mass_2_source'', [20, 20]),
           (''luminosity_distance'', [16000, 18000])], Suc (Suc (Suc 0))))"
  using demo_finish [of "Suc (Suc (Suc 0))"]
  by (simp add: demo_c0 demo_c1 add_dictionaries_together_def)

lemma select_rows_pairs:
  "length us = length zs \<Longrightarrow>
   select_rows (map2 (<) (map (\<lambda>u. 0 + (tm - 0) * u) us) (map tau zs)) (zs :: real list)
     = map fst (filter (\<lambda>zu. (tm :: real) * snd zu < tau (fst zu)) (zip zs us))"
  by (induction us zs rule: list_induct2) (simp_all add: select_rows_def)

lemma generator_contractD:
  assumes "generator_contract L" and "random_sample L n g = (us, g')"
  shows "length us = n" and "list_all (\<lambda>u. 0 \<le> u \<and> u < 1) us"
proof -
  have "length (fst (random_sample L n g)) = n
      \<and> list_all (\<lambda>u. 0 \<le> u \<and> u < 1) (fst (random_sample L n g))"
    using assms(1) unfolding generator_contract_def by blast
  then show "length us = n" and "list_all (\<lambda>u. 0 \<le> u \<and> u < 1) us"
    by (simp_all add: assms(2))
qed

lemma sl_round_rule:
  assumes c: "generator_contract L" and z: "sample_zs L sz g = (zs, g1)"
    and u: "random_sample L (length zs) g1 = (us, g2)"
  shows "sl_round L sz g
      = (map fst (filter (\<lambda>zu. strong_lensing_optical_depth L (z_max L) * snd zu
                                < strong_lensing_optical_depth L (fst zu)) (zip zs us)), g2)"
    and "0 < strong_lensing_optical_depth L (z_max L) \<Longrightarrow>
         list_all (\<lambda>u. 0 \<le> strong_lensing_optical_depth L (z_max L) * u
                      \<and> strong_lensing_optical_depth L (z_max L) * u
                          < strong_lensing_optical_depth L (z_max L)) us"
proof -
  note d = generator_contractD [OF c u]
  show "sl_round L sz g
      = (map fst (filter (\<lambda>zu. strong_lensing_optical_depth L (z_max L) * snd zu
                                < strong_lensing_optical_depth L (fst zu)) (zip zs us)), g2)"
    using select_rows_pairs [OF d(1), of "strong_lensing_optical_depth L (z_max L)"
        "strong_lensing_optical_depth L"]
    by (simp add: sl_round_def z u np_random_uniform_def)
  assume p: "0 < strong_lensing_optical_depth L (z_max L)"
  show "list_all (\<lambda>u. 0 \<le> strong_lensing_optical_depth L (z_max L) * u
                      \<and> strong_lensing_optical_depth L (z_max L) * u
                          < strong_lensing_optical_depth L (z_max L)) us"
  proof -
    have "0 \<le> strong_lensing_optical_depth L (z_max L) * x
        \<and> strong_lensing_optical_depth L (z_max L) * x < strong_lensing_optical_depth L (z_max L)"
      if "x \<in> set us" for x
    proof -
      have "0 \<le> x \<and> x < 1" using d(2) that by (simp add: list_all_iff)
      then show ?thesis using p by simp
    qed
    then show ?thesis by (simp add: list_all_iff)
  qed
qed

text \<open>
  Claim C5. In a round of the strongly-lensed redshift sampler every draw is
  \<open>\<tau>(z_max) \<cdot> u\<close> with \<open>u\<close> in \<open>[0, 1)\<close>, hence in \<open>[0, \<tau>(z_max))\<close>; candidate \<open>z\<^sub>i\<close> is
  accepted iff its draw is below \<open>\<tau>(z\<^sub>i)\<close>; for a monotone \<open>\<tau>\<close> and candidates up to \<open>z_max\<close>
  the bound \<open>\<tau>(z_max)\<close> dominates \<open>\<tau>\<close>. The accepted redshifts are appended round after
  round in their order, the loop stops at the first round after which at least \<open>size\<close>
  have been accepted, and the result is the first \<open>size\<close> of them, with the generator as
  that round left it.
\<close>

theorem optical_depth_rejection:
  "(generator_contract L \<and> sample_zs L sz g = (zs, g1) \<and> random_sample L (length zs) g1 = (us, g2)
    \<longrightarrow> sl_round L sz g
          = (map fst (filter (\<lambda>zu. strong_lensing_optical_depth L (z_max L) * snd zu
                                    < strong_lensing_optical_depth L (fst zu)) (zip zs us)), g2)
        \<and> (0 < strong_lensing_optical_depth L (z_max L)
           \<longrightarrow> list_all (\<lambda>u. 0 \<le> strong_lensing_optical_depth L (z_max L) * u
                           \<and> strong_lensing_optical_depth L (z_max L) * u
                               < strong_lensing_optical_depth L (z_max L)) us)
        \<and> (mono_on {..z_max L} (strong_lensing_optical_depth L)
             \<and> list_all (\<lambda>z. z \<le> z_max L) zs
           \<longrightarrow> list_all (\<lambda>z. strong_lensing_optical_depth L z
                               \<le> strong_lensing_optical_depth L (z_max L)) zs))
   \<and> zs_function (Suc fuel) L sz acc g
       = (if sz \<le> length (acc @ fst (sl_round L sz g))
          then Some (take sz (acc @ fst (sl_round L sz g)), snd (sl_round L sz g))
          else zs_function fuel L sz (acc @ fst (sl_round L sz g)) (snd (sl_round L sz g)))
   \<and> ((j = 0 \<or> length (concat (fst (sl_rounds j L sz g))) < sz)
       \<and> sz \<le> length (concat (fst (sl_rounds (Suc j) L sz g))) \<and> j < fuel
      \<longrightarrow> strongly_lensed_source_redshifts fuel L sz g
            = Some (take sz (concat (fst (sl_rounds (Suc j) L sz g))),
                    snd (sl_rounds (Suc j) L sz g)))"
proof (intro conjI impI)
  assume h: "generator_contract L \<and> sample_zs L sz g = (zs, g1)
      \<and> random_sample L (length zs) g1 = (us, g2)"
  then have c: "generator_contract L" and z: "sample_zs L sz g = (zs, g1)"
    and u: "random_sample L (length zs) g1 = (us, g2)" by simp_all
  show "sl_round L sz g
          = (map fst (filter (\<lambda>zu. strong_lensing_optical_depth L (z_max L) * snd zu
                                    < strong_lensing_optical_depth L (fst zu)) (zip zs us)), g2)"
    by (rule sl_round_rule(1) [OF c z u])
  show "list_all (\<lambda>u. 0 \<le> strong_lensing_optical_depth L (z_max L) * u
                           \<and> strong_lensing_optical_depth L (z_max L) * u
                               < strong_lensing_optical_depth L (z_max L)) us"
    if "0 < strong_lensing_optical_depth L (z_max L)"
    by (rule sl_round_rule(2) [OF c z u that])
  show "list_all (\<lambda>z. strong_lensing_optical_depth L z
                               \<le> strong_lensing_optical_depth L (z_max L)) zs"
    if m: "mono_on {..z_max L} (strong_lensing_optical_depth L)
             \<and> list_all (\<lambda>z. z \<le> z_max L) zs"
  proof -
    have "strong_lensing_optical_depth L z \<le> strong_lensing_optical_depth L (z_max L)"
      if "z \<in> set zs" for z
    proof -
      have "z \<le> z_max L" using m that by (simp add: list_all_iff)
      then show ?thesis using m [THEN conjunct1] by (simp add: monotone_on_def)
    qed
    then show ?thesis by (simp add: list_all_iff)
  qed
next
  show "zs_function (Suc fuel) L sz acc g
       = (if sz \<le> length (acc @ fst (sl_round L sz g))
          then Some (take sz (acc @ fst (sl_round L sz g)), snd (sl_round L sz g))
          else zs_function fuel L sz (acc @ fst (sl_round L sz g)) (snd (sl_round L sz g)))"
    by (simp add: zs_function_round split: prod.splits del: zs_function.simps)
next
  assume a: "(j = 0 \<or> length (concat (fst (sl_rounds j L sz g))) < sz)
       \<and> sz \<le> length (concat (fst (sl_rounds (Suc j) L sz g))) \<and> j < fuel"
  show "strongly_lensed_source_redshifts fuel L sz g
            = Some (take sz (concat (fst (sl_rounds (Suc j) L sz g))),
                    snd (sl_rounds (Suc j) L sz g))"
    by (rule strongly_lensed_result [OF a [THEN conjunct1] a [THEN conjunct2, THEN conjunct1]
          a [THEN conjunct2, THEN conjunct2]])
qed

lemma demo_contract: "generator_contract demo_lens"
  by (simp add: generator_contract_def demo_lens_def list_all_iff)

lemma demo_round_facts:
  "sample_zs demo_lens 2 0 = ([14, 16], Suc 0)"
  "random_sample demo_lens (length [14, 16 :: real]) (Suc 0) = ([3 / 4, 3 / 4], Suc 0)"
  "strong_lensing_optical_depth demo_lens (z_max demo_lens) = 1"
  "mono_on {..z_max demo_lens} (strong_lensing_optical_depth demo_lens)"
  "list_all (\<lambda>z. z \<le> z_max demo_lens) [14, 16]"
  by (simp_all add: demo_lens_def upt_2 monotone_on_def numeral_2_eq_2)

lemma demo_tau:
  "strong_lensing_optical_depth demo_lens z = z / 20" "z_max demo_lens = 20"
  by (simp_all add: demo_lens_def)

lemma demo_rounds:
  "sl_rounds (Suc 0) demo_lens 2 0 = ([[16]], Suc 0)"
  "sl_rounds (Suc (Suc 0)) demo_lens 2 0 = ([[16], [17]], Suc (Suc 0))"
  by (simp_all add: sl_round_def demo_lens_def np_random_uniform_def select_rows_def upt_2 Let_def)

theorem optical_depth_rejection_witness:
  "generator_contract demo_lens \<and> sample_zs demo_lens 2 0 = ([14, 16], Suc 0)
   \<and> random_sample demo_lens (length [14, 16 :: real]) (Suc 0) = ([3 / 4, 3 / 4], Suc 0)
   \<and> 0 < strong_lensing_optical_depth demo_lens (z_max demo_lens)
   \<and> mono_on {..z_max demo_lens} (strong_lensing_optical_depth demo_lens)
   \<and> list_all (\<lambda>z. z \<le> z_max demo_lens) [14, 16]
   \<and> length (concat (fst (sl_rounds (Suc 0) demo_lens 2 0))) < 2
   \<and> 2 \<le> length (concat (fst (sl_rounds (Suc (Suc 0)) demo_lens 2 0))) \<and> Suc 0 < 2
   \<and> sl_round demo_lens 2 0 = ([16], Suc 0)
   \<and> list_all (\<lambda>z. strong_lensing_optical_depth demo_lens z
                      \<le> strong_lensing_optical_depth demo_lens (z_max demo_lens)) [14, 16]
   \<and> strongly_lensed_source_redshifts 2 demo_lens 2 0 = Some ([16, 17], Suc (Suc 0))"
proof -
  note t = optical_depth_rejection [where L = demo_lens and sz = 2 and g = 0 and zs = "[14, 16]"
      and ?g1.0 = "Suc 0" and us = "[3 / 4, 3 / 4]" and ?g2.0 = "Suc 0" and j = "Suc 0"
      and fuel = 2]
  have h1: "generator_contract demo_lens \<and> sample_zs demo_lens 2 0 = ([14, 16], Suc 0)
      \<and> random_sample demo_lens (length [14, 16 :: real]) (Suc 0) = ([3 / 4, 3 / 4], Suc 0)"
    using demo_contract demo_round_facts(1,2) by blast
  have p: "0 < strong_lensing_optical_depth demo_lens (z_max demo_lens)"
    by (simp add: demo_round_facts(3))
  have m: "mono_on {..z_max demo_lens} (strong_lensing_optical_depth demo_lens)
      \<and> list_all (\<lambda>z. z \<le> z_max demo_lens) [14, 16]"
    using demo_round_facts(4,5) by blast
  have h2: "(Suc 0 = 0 \<or> length (concat (fst (sl_rounds (Suc 0) demo_lens 2 0))) < 2)
      \<and> 2 \<le> length (concat (fst (sl_rounds (Suc (Suc 0)) demo_lens 2 0))) \<and> Suc 0 < 2"
    by (simp add: demo_rounds del: sl_rounds.simps)
  note r = t [THEN conjunct1, rule_format, OF h1]
  have a: "sl_round demo_lens 2 0 = ([16], Suc 0)"
    using r [THEN conjunct1] by (simp add: demo_tau)
  have b: "list_all (\<lambda>z. strong_lensing_optical_depth demo_lens z
                      \<le> strong_lensing_optical_depth demo_lens (z_max demo_lens)) [14, 16]"
    by (rule r [THEN conjunct2, THEN conjunct2, rule_format, OF m])
  have c: "strongly_lensed_source_redshifts 2 demo_lens 2 0 = Some ([16, 17], Suc (Suc 0))"
    using t [THEN conjunct2, THEN conjunct2, rule_format, OF h2]
    by (simp add: demo_rounds del: sl_rounds.simps)
  show ?thesis
    using h1 p m h2 a b c by simp
qed

section \<open>Properties of the rejection rules\<close>

lemma np_max_Max: "xs \<noteq> [] \<Longrightarrow> np_max xs = Inr (Max (set xs))"
  by (cases xs) (simp_all add: np_max_def Max.set_eq_fold [symmetric])

lemma mask_params_ok:
  "same_rows (length msk) d \<Longrightarrow>
   mask_params msk d = Inr (map (\<lambda>kv. (fst kv, select_rows msk (snd kv))) d)"
  by (induction d) (auto simp: same_rows_def)

lemma select_rows_nths:
  "length msk = length v \<Longrightarrow> select_rows msk v = nths v {i. i < length msk \<and> msk ! i}"
proof (induction msk v rule: list_induct2)
  case Nil
  then show ?case by (simp add: select_rows_def)
next
  case (Cons m msk x v)
  have "{j. Suc j < Suc (length msk) \<and> (m # msk) ! Suc j} = {i. i < length msk \<and> msk ! i}"
    by auto
  then show ?case using Cons.IH by (simp add: select_rows_def nths_Cons)
qed

lemma map2_map_left: "map2 f (map h xs) ys = map2 (\<lambda>x y. f (h x) y) xs ys"
  by (induction xs arbitrary: ys) (auto simp: zip_Cons1 split: list.splits)

lemma map2_map_right: "map2 f xs (map h ys) = map2 (\<lambda>x y. f x (h y)) xs ys"
  by (induction ys arbitrary: xs) (auto simp: zip_Cons split: list.splits)

lemma map2_map_both: "map2 f (map h xs) (map k ys) = map2 (\<lambda>x y. f (h x) (k y)) xs ys"
  by (simp add: map2_map_left map2_map_right)

lemma rjs_with_einstein_radius_rule:
  assumes c: "generator_contract L" and t: "map_of param_dict ''theta_E'' = Some theta_E"
    and ne: "theta_E \<noteq> []" and rows: "same_rows (length theta_E) param_dict"
    and u: "random_sample L (length theta_E) g = (us, g')"
  shows "rjs_with_einstein_radius L param_dict g
      = Inr (map (\<lambda>kv. (fst kv, select_rows (einstein_mask us theta_E) (snd kv))) param_dict, g')"
    and "length (einstein_mask us theta_E) = length theta_E"
    and "list_all (\<lambda>u. 0 \<le> (Max (set theta_E)) ^ 2 * u
                     \<and> (Max (set theta_E)) ^ 2 * u \<le> (Max (set theta_E)) ^ 2) us"
proof -
  have lu: "length us = length theta_E" and ur: "list_all (\<lambda>u. 0 \<le> u \<and> u < 1) us"
  proof -
    have "length (fst (random_sample L (length theta_E) g)) = length theta_E
      \<and> list_all (\<lambda>u. 0 \<le> u \<and> u < 1) (fst (random_sample L (length theta_E) g))"
      using c unfolding generator_contract_def by blast
    then show "length us = length theta_E" and "list_all (\<lambda>u. 0 \<le> u \<and> u < 1) us"
      by (simp_all add: u)
  qed
  show lm: "length (einstein_mask us theta_E) = length theta_E"
    by (simp add: einstein_mask_def lu)
  have m: "map2 (<) (map ((*) ((Max (set theta_E))\<^sup>2)) us) (map power2 theta_E)
      = einstein_mask us theta_E"
    by (simp add: einstein_mask_def map2_map_both)
  have mp: "mask_params (einstein_mask us theta_E) param_dict
      = Inr (map (\<lambda>kv. (fst kv, select_rows (einstein_mask us theta_E) (snd kv))) param_dict)"
    by (rule mask_params_ok) (simp add: lm rows)
  show "rjs_with_einstein_radius L param_dict g
      = Inr (map (\<lambda>kv. (fst kv, select_rows (einstein_mask us theta_E) (snd kv))) param_dict, g')"
    by (simp add: rjs_with_einstein_radius_def t np_max_Max [OF ne] np_random_uniform_def u m mp)
  show "list_all (\<lambda>u. 0 \<le> (Max (set theta_E)) ^ 2 * u
                     \<and> (Max (set theta_E)) ^ 2 * u \<le> (Max (set theta_E)) ^ 2) us"
  proof -
    have "0 \<le> (Max (set theta_E)) ^ 2 * x \<and> (Max (set theta_E)) ^ 2 * x \<le> (Max (set theta_E)) ^ 2"
      if "x \<in> set us" for x
    proof -
      have x: "0 \<le> x \<and> x < 1" using ur that by (simp add: list_all_iff)
      have "(Max (set theta_E)) ^ 2 * x \<le> (Max (set theta_E)) ^ 2 * 1"
        by (rule mult_left_mono) (use x in simp_all)
      then show ?thesis using x by simp
    qed
    then show ?thesis by (simp add: list_all_iff)
  qed
qed

lemma rjs_with_cross_section_rule:
  assumes c: "generator_contract L" and t: "map_of param_dict ''theta_E'' = Some theta_E"
    and q: "map_of param_dict ''q'' = Some q"
    and ne: "theta_E \<noteq> []" and rows: "same_rows (length theta_E) param_dict"
    and u: "random_sample L (length theta_E) g = (us, g')"
  shows "rjs_with_cross_section L param_dict g
      = Inr (map (\<lambda>kv. (fst kv, select_rows
                 (cross_section_mask us (cross_section_weights L theta_E q)) (snd kv))) param_dict, g')"
    and "length (cross_section_mask us (cross_section_weights L theta_E q)) = length theta_E"
    and "list_all (\<lambda>x. 0 \<le> phi_cut_SIE L x) q \<Longrightarrow>
         list_all (\<lambda>u. 0 \<le> Max (set (cross_section_weights L theta_E q)) * u
                     \<and> Max (set (cross_section_weights L theta_E q)) * u
                         \<le> Max (set (cross_section_weights L theta_E q))) us"
proof -
  let ?ws = "cross_section_weights L theta_E q"
  have lu: "length us = length theta_E" and ur: "list_all (\<lambda>u. 0 \<le> u \<and> u < 1) us"
  proof -
    have "length (fst (random_sample L (length theta_E) g)) = length theta_E
      \<and> list_all (\<lambda>u. 0 \<le> u \<and> u < 1) (fst (random_sample L (length theta_E) g))"
      using c unfolding generator_contract_def by blast
    then show "length us = length theta_E" and "list_all (\<lambda>u. 0 \<le> u \<and> u < 1) us"
      by (simp_all add: u)
  qed
  have "(''q'', q) \<in> set param_dict" using q by (rule map_of_SomeD)
  then have lq: "length q = length theta_E" using rows by (auto simp: same_rows_def list_all_iff)
  have lw: "length ?ws = length theta_E" by (simp add: cross_section_weights_def lq)
  then have wne: "?ws \<noteq> []" using ne by auto
  show lm: "length (cross_section_mask us ?ws) = length theta_E"
    by (simp add: cross_section_mask_def lu lw)
  have w: "map2 (*) (map (\<lambda>t. t\<^sup>2) theta_E) (map (phi_cut_SIE L) q) = ?ws"
    by (simp add: cross_section_weights_def map2_map_both)
  have m: "map2 (<) (map ((*) (Max (set ?ws))) us) ?ws = cross_section_mask us ?ws"
    by (simp add: cross_section_mask_def map2_map_left)
  have mp: "mask_params (cross_section_mask us ?ws) param_dict
      = Inr (map (\<lambda>kv. (fst kv, select_rows (cross_section_mask us ?ws) (snd kv))) param_dict)"
    by (rule mask_params_ok) (simp add: lm rows)
  show "rjs_with_cross_section L param_dict g
      = Inr (map (\<lambda>kv. (fst kv, select_rows (cross_section_mask us ?ws) (snd kv))) param_dict, g')"
    by (simp add: rjs_with_cross_section_def t q lq w np_max_Max [OF wne] np_random_uniform_def u m mp
        Let_def)
  assume nn: "list_all (\<lambda>x. 0 \<le> phi_cut_SIE L x) q"
  have "\<And>w. w \<in> set ?ws \<Longrightarrow> 0 \<le> w"
    using nn by (auto simp: cross_section_weights_def list_all_iff dest!: set_zip_rightD)
  moreover obtain w0 where "w0 \<in> set ?ws" using wne by (cases ?ws) auto
  ultimately have M0: "0 \<le> Max (set ?ws)" by (meson List.finite_set Max_ge order_trans)
  show "list_all (\<lambda>u. 0 \<le> Max (set ?ws) * u \<and> Max (set ?ws) * u \<le> Max (set ?ws)) us"
  proof -
    have "0 \<le> Max (set ?ws) * x \<and> Max (set ?ws) * x \<le> Max (set ?ws)" if "x \<in> set us" for x
    proof -
      have x: "0 \<le> x \<and> x < 1" using ur that by (simp add: list_all_iff)
      have "Max (set ?ws) * x \<le> Max (set ?ws) * 1"
        by (rule mult_left_mono) (use x M0 in simp_all)
      then show ?thesis using x M0 by simp
    qed
    then show ?thesis by (simp add: list_all_iff)
  qed
qed

lemma select_rows_same_rows:
  assumes "same_rows (length msk) d"
  shows "list_all (\<lambda>kv. select_rows msk (snd kv) = nths (snd kv) {i. i < length msk \<and> msk ! i}) d"
proof -
  have "select_rows msk (snd kv) = nths (snd kv) {i. i < length msk \<and> msk ! i}"
    if "kv \<in> set d" for kv
  proof -
    have "length msk = length (snd kv)" using assms that by (simp add: same_rows_def list_all_iff)
    then show ?thesis by (rule select_rows_nths)
  qed
  then show ?thesis by (simp add: list_all_iff)
qed

lemma einstein_mask_nth:
  "length us = length theta_E \<Longrightarrow> i < length theta_E \<Longrightarrow>
   einstein_mask us theta_E ! i = ((Max (set theta_E)) ^ 2 * us ! i < (theta_E ! i) ^ 2)"
  by (simp add: einstein_mask_def)

lemma cross_section_mask_nth:
  "length us = length ws \<Longrightarrow> i < length ws \<Longrightarrow>
   cross_section_mask us ws ! i = (Max (set ws) * us ! i < ws ! i)"
  by (simp add: cross_section_mask_def)

lemma cross_section_weights_nth:
  "length q = length theta_E \<Longrightarrow> i < length theta_E \<Longrightarrow>
   cross_section_weights L theta_E q ! i = (theta_E ! i) ^ 2 * phi_cut_SIE L (q ! i)"
  by (simp add: cross_section_weights_def)

lemma contract_length:
  "generator_contract L \<Longrightarrow> random_sample L n g = (us, g') \<Longrightarrow> length us = n"
proof -
  assume c: "generator_contract L" and u: "random_sample L n g = (us, g')"
  have "length (fst (random_sample L n g)) = n"
    using c unfolding generator_contract_def by blast
  then show ?thesis by (simp add: u)
qed

lemma einstein_part:
  assumes h: "generator_contract L \<and> map_of param_dict ''theta_E'' = Some theta_E
      \<and> theta_E \<noteq> [] \<and> same_rows (length theta_E) param_dict
      \<and> random_sample L (length theta_E) g = (us, g')"
  shows "rjs_with_einstein_radius L param_dict g
          = Inr (map (\<lambda>kv. (fst kv, select_rows (einstein_mask us theta_E) (snd kv))) param_dict, g')
        \<and> (\<forall>i < length theta_E.
              einstein_mask us theta_E ! i
                = ((Max (set theta_E)) ^ 2 * us ! i < (theta_E ! i) ^ 2))
        \<and> list_all (\<lambda>u. 0 \<le> (Max (set theta_E)) ^ 2 * u
                        \<and> (Max (set theta_E)) ^ 2 * u \<le> (Max (set theta_E)) ^ 2) us
        \<and> list_all (\<lambda>kv. select_rows (einstein_mask us theta_E) (snd kv)
                           = nths (snd kv) {i. i < length theta_E \<and> einstein_mask us theta_E ! i})
             param_dict"
proof -
  from h have c: "generator_contract L" and t: "map_of param_dict ''theta_E'' = Some theta_E"
    and ne: "theta_E \<noteq> []" and rows: "same_rows (length theta_E) param_dict"
    and u: "random_sample L (length theta_E) g = (us, g')" by simp_all
  note r = rjs_with_einstein_radius_rule [OF c t ne rows u]
  have lu: "length us = length theta_E" by (rule contract_length [OF c u])
  have n: "list_all (\<lambda>kv. select_rows (einstein_mask us theta_E) (snd kv)
                           = nths (snd kv) {i. i < length (einstein_mask us theta_E)
                                               \<and> einstein_mask us theta_E ! i}) param_dict"
    by (rule select_rows_same_rows) (simp add: r(2) rows)
  show ?thesis using r(1) r(3) n einstein_mask_nth [OF lu] by (simp add: r(2))
qed

lemma cross_section_part:
  assumes h: "generator_contract L \<and> map_of param_dict ''theta_E'' = Some theta_E
      \<and> map_of param_dict ''q'' = Some q
      \<and> theta_E \<noteq> [] \<and> same_rows (length theta_E) param_dict
      \<and> random_sample L (length theta_E) g = (us, g')"
  shows "rjs_with_cross_section L param_dict g
          = Inr (map (\<lambda>kv. (fst kv, select_rows
                   (cross_section_mask us (cross_section_weights L theta_E q)) (snd kv)))
                   param_dict, g')
        \<and> (\<forall>i < length theta_E.
              cross_section_weights L theta_E q ! i = (theta_E ! i) ^ 2 * phi_cut_SIE L (q ! i)
              \<and> cross_section_mask us (cross_section_weights L theta_E q) ! i
                  = (Max (set (cross_section_weights L theta_E q)) * us ! i
                       < cross_section_weights L theta_E q ! i))
        \<and> (list_all (\<lambda>x. 0 \<le> phi_cut_SIE L x) q
           \<longrightarrow> list_all (\<lambda>u. 0 \<le> Max (set (cross_section_weights L theta_E q)) * u
                        \<and> Max (set (cross_section_weights L theta_E q)) * u
                            \<le> Max (set (cross_section_weights L theta_E q))) us)
        \<and> list_all (\<lambda>kv. select_rows (cross_section_mask us (cross_section_weights L theta_E q))
                             (snd kv)
                           = nths (snd kv)
                               {i. i < length theta_E
                                   \<and> cross_section_mask us (cross_section_weights L theta_E q) ! i})
             param_dict"
proof -
  from h have c: "generator_contract L" and t: "map_of param_dict ''theta_E'' = Some theta_E"
    and q: "map_of param_dict ''q'' = Some q"
    and ne: "theta_E \<noteq> []" and rows: "same_rows (length theta_E) param_dict"
    and u: "random_sample L (length theta_E) g = (us, g')" by simp_all
  note r = rjs_with_cross_section_rule [OF c t q ne rows u]
  have lu: "length us = length theta_E" by (rule contract_length [OF c u])
  have "(''q'', q) \<in> set param_dict" using q by (rule map_of_SomeD)
  then have lq: "length q = length theta_E" using rows by (auto simp: same_rows_def list_all_iff)
  have lw: "length (cross_section_weights L theta_E q) = length theta_E"
    by (simp add: cross_section_weights_def lq)
  have n: "list_all (\<lambda>kv. select_rows (cross_section_mask us (cross_section_weights L theta_E q))
                             (snd kv)
                           = nths (snd kv)
                               {i. i < length (cross_section_mask us (cross_section_weights L theta_E q))
                                   \<and> cross_section_mask us (cross_section_weights L theta_E q) ! i})
             param_dict"
    by (rule select_rows_same_rows) (simp add: r(2) rows)
  have m: "\<forall>i < length theta_E.
              cross_section_weights L theta_E q ! i = (theta_E ! i) ^ 2 * phi_cut_SIE L (q ! i)
              \<and> cross_section_mask us (cross_section_weights L theta_E q) ! i
                  = (Max (set (cross_section_weights L theta_E q)) * us ! i
                       < cross_section_weights L theta_E q ! i)"
    using cross_section_weights_nth [OF lq, where L = L]
      cross_section_mask_nth [of us "cross_section_weights L theta_E q"]
    by (simp add: lu lw)
  show ?thesis using r(1) r(3) n m by (simp add: r(2))
qed

text \<open>
  Claim C6. For every non-empty batch whose fields have one length, the Einstein-radius
  rule draws, for each row, \<open>max(theta_E)\<^sup>2 \<cdot> u\<close> with \<open>u\<close> in \<open>[0, 1)\<close>, a number of
  \<open>[0, max(theta_E)\<^sup>2]\<close>, and accepts row \<open>i\<close> iff its draw is strictly below \<open>theta_E[i]\<^sup>2\<close>;
  the cross-section rule does the same with the weights \<open>theta_E[i]\<^sup>2 \<cdot> phi_cut(q[i])\<close> and
  their maximum (a range \<open>[0, max]\<close> when \<open>phi_cut\<close> is not negative). Both rules filter every
  field with the one acceptance mask: each field keeps its rows at the accepted indices,
  in order.
\<close>

theorem geometric_rejection_rules:
  "(generator_contract L \<and> map_of param_dict ''theta_E'' = Some theta_E
      \<and> theta_E \<noteq> [] \<and> same_rows (length theta_E) param_dict
      \<and> random_sample L (length theta_E) g = (us, g')
    \<longrightarrow> rjs_with_einstein_radius L param_dict g
          = Inr (map (\<lambda>kv. (fst kv, select_rows (einstein_mask us theta_E) (snd kv))) param_dict, g')
        \<and> (\<forall>i < length theta_E.
              einstein_mask us theta_E ! i
                = ((Max (set theta_E)) ^ 2 * us ! i < (theta_E ! i) ^ 2))
        \<and> list_all (\<lambda>u. 0 \<le> (Max (set theta_E)) ^ 2 * u
                        \<and> (Max (set theta_E)) ^ 2 * u \<le> (Max (set theta_E)) ^ 2) us
        \<and> list_all (\<lambda>kv. select_rows (einstein_mask us theta_E) (snd kv)
                           = nths (snd kv) {i. i < length theta_E \<and> einstein_mask us theta_E ! i})
             param_dict)
   \<and> (generator_contract L \<and> map_of param_dict ''theta_E'' = Some theta_E
      \<and> map_of param_dict ''q'' = Some q
      \<and> theta_E \<noteq> [] \<and> same_rows (length theta_E) param_dict
      \<and> random_sample L (length theta_E) g = (us, g')
    \<longrightarrow> rjs_with_cross_section L param_dict g
          = Inr (map (\<lambda>kv. (fst kv, select_rows
                   (cross_section_mask us (cross_section_weights L theta_E q)) (snd kv)))
                   param_dict, g')
        \<and> (\<forall>i < length theta_E.
              cross_section_weights L theta_E q ! i = (theta_E ! i) ^ 2 * phi_cut_SIE L (q ! i)
              \<and> cross_section_mask us (cross_section_weights L theta_E q) ! i
                  = (Max (set (cross_section_weights L theta_E q)) * us ! i
                       < cross_section_weights L theta_E q ! i))
        \<and> (list_all (\<lambda>x. 0 \<le> phi_cut_SIE L x) q
           \<longrightarrow> list_all (\<lambda>u. 0 \<le> Max (set (cross_section_weights L theta_E q)) * u
                        \<and> Max (set (cross_section_weights L theta_E q)) * u
                            \<le> Max (set (cross_section_weights L theta_E q))) us)
        \<and> list_all (\<lambda>kv. select_rows (cross_section_mask us (cross_section_weights L theta_E q))
                             (snd kv)
                           = nths (snd kv)
                               {i. i < length theta_E
                                   \<and> cross_section_mask us (cross_section_weights L theta_E q) ! i})
             param_dict)"
  by (rule conjI; rule impI) (erule einstein_part, erule cross_section_part)

lemma demo_batch_facts:
  "generator_contract demo_lens"
  "map_of demo_batch ''theta_E'' = Some [65536, 83521]"
  "map_of demo_batch ''q'' = Some [1 / 2, 1 / 2]"
  "[65536, 83521 :: real] \<noteq> []"
  "same_rows (length [65536, 83521 :: real]) demo_batch"
  "random_sample demo_lens (length [65536, 83521 :: real]) 0 = ([3 / 4, 3 / 4], 0)"
  "list_all (\<lambda>x. 0 \<le> phi_cut_SIE demo_lens x) [1 / 2, 1 / 2]"
  by (rule demo_contract) (simp_all add: demo_batch_def same_rows_def demo_lens_def numeral_2_eq_2)

lemma demo_masks:
  "einstein_mask [3 / 4, 3 / 4] [65536, 83521] = [False, True]"
  "cross_section_mask [3 / 4, 3 / 4] (cross_section_weights demo_lens [65536, 83521] [1 / 2, 1 / 2])
     = [False, True]"
  by (simp_all add: einstein_mask_def cross_section_mask_def cross_section_weights_def demo_lens_def)

lemma demo_selected:
  "map (\<lambda>kv. (fst kv, select_rows [False, True] (snd kv))) demo_batch
   = [(''zl'', [17 / 2]), (''zs'', [17]), (''sigma'', [299792.458]), (''q'', [1 / 2]),
      (''theta_E'', [83521])]"
  by (simp add: demo_batch_def select_rows_def)

theorem geometric_rejection_rules_witness:
  "generator_contract demo_lens \<and> map_of demo_batch ''theta_E'' = Some [65536, 83521]
   \<and> map_of demo_batch ''q'' = Some [1 / 2, 1 / 2]
   \<and> [65536, 83521 :: real] \<noteq> [] \<and> same_rows (length [65536, 83521 :: real]) demo_batch
   \<and> random_sample demo_lens (length [65536, 83521 :: real]) 0 = ([3 / 4, 3 / 4], 0)
   \<and> list_all (\<lambda>x. 0 \<le> phi_cut_SIE demo_lens x) [1 / 2, 1 / 2]
   \<and> rjs_with_einstein_radius demo_lens demo_batch 0
       = Inr ([(''zl'', [17 / 2]), (''zs'', [17]), (''sigma'', [299792.458]), (''q'', [1 / 2]),
               (''theta_E'', [83521])], 0)
   \<and> rjs_with_cross_section demo_lens demo_batch 0
       = Inr ([(''zl'', [17 / 2]), (''zs'', [17]), (''sigma'', [299792.458]), (''q'', [1 / 2]),
               (''theta_E'', [83521])], 0)"
proof -
  have he: "generator_contract demo_lens \<and> map_of demo_batch ''theta_E'' = Some [65536, 83521]
      \<and> [65536, 83521 :: real] \<noteq> [] \<and> same_rows (length [65536, 83521 :: real]) demo_batch
      \<and> random_sample demo_lens (length [65536, 83521 :: real]) 0 = ([3 / 4, 3 / 4], 0)"
    using demo_batch_facts by blast
  have hc: "generator_contract demo_lens \<and> map_of demo_batch ''theta_E'' = Some [65536, 83521]
      \<and> map_of demo_batch ''q'' = Some [1 / 2, 1 / 2]
      \<and> [65536, 83521 :: real] \<noteq> [] \<and> same_rows (length [65536, 83521 :: real]) demo_batch
      \<and> random_sample demo_lens (length [65536, 83521 :: real]) 0 = ([3 / 4, 3 / 4], 0)"
    using demo_batch_facts by blast
  note e = geometric_rejection_rules [where L = demo_lens and param_dict = demo_batch
      and theta_E = "[65536, 83521]" and g = 0 and us = "[3 / 4, 3 / 4]" and g' = 0
      and q = "[1 / 2, 1 / 2]"]
  have a: "rjs_with_einstein_radius demo_lens demo_batch 0
       = Inr ([(''zl'', [17 / 2]), (''zs'', [17]), (''sigma'', [299792.458]), (''q'', [1 / 2]),
               (''theta_E'', [83521])], 0)"
    using e [THEN conjunct1, rule_format, OF he, THEN conjunct1]
    by (simp only: demo_masks demo_selected)
  have b: "rjs_with_cross_section demo_lens demo_batch 0
       = Inr ([(''zl'', [17 / 2]), (''zs'', [17]), (''sigma'', [299792.458]), (''q'', [1 / 2]),
               (''theta_E'', [83521])], 0)"
    using e [THEN conjunct2, rule_format, OF hc, THEN conjunct1]
    by (simp only: demo_masks demo_selected)
  show ?thesis using a b demo_batch_facts by blast
qed

lemma select_rows_none: "list_all (\<lambda>b. \<not> b) msk \<Longrightarrow> select_rows msk v = []"
proof (induction msk arbitrary: v)
  case Nil
  then show ?case by (simp add: select_rows_def)
next
  case (Cons m msk)
  then show ?case by (cases v) (simp_all add: select_rows_def)
qed

lemma Max_zero_all_zero:
  assumes "list_all (\<lambda>w. 0 \<le> w) ws" and "Max (set ws) = 0" and "w \<in> set (ws :: real list)"
  shows "w = 0"
proof -
  have "w \<le> Max (set ws)" using assms(3) by simp
  moreover have "0 \<le> w" using assms(1,3) by (simp add: list_all_iff)
  ultimately show ?thesis using assms(2) by simp
qed

lemma einstein_mask_zero:
  assumes "list_all (\<lambda>t. 0 \<le> t) theta_E" and "Max (set theta_E) = 0"
  shows "list_all (\<lambda>b. \<not> b) (einstein_mask us theta_E)"
proof -
  have "\<not> (Max (set theta_E)) ^ 2 * u < t ^ 2" if "(u, t) \<in> set (zip us theta_E)" for u t
  proof -
    have "t \<in> set theta_E" using that by (rule set_zip_rightD)
    then have "t = 0" using Max_zero_all_zero [OF assms] by simp
    then show ?thesis by (simp add: assms(2))
  qed
  then show ?thesis by (auto simp: einstein_mask_def list_all_iff)
qed

lemma cross_section_mask_zero:
  assumes "list_all (\<lambda>w. 0 \<le> w) ws" and "Max (set ws) = 0"
  shows "list_all (\<lambda>b. \<not> b) (cross_section_mask us ws)"
proof -
  have "\<not> Max (set ws) * u < w" if "(u, w) \<in> set (zip us ws)" for u w
  proof -
    have "w \<in> set ws" using that by (rule set_zip_rightD)
    then have "w = 0" using Max_zero_all_zero [OF assms] by simp
    then show ?thesis by (simp add: assms(2))
  qed
  then show ?thesis by (auto simp: cross_section_mask_def list_all_iff)
qed

lemma einstein_zero_part:
  assumes h: "generator_contract L \<and> map_of param_dict ''theta_E'' = Some theta_E
      \<and> theta_E \<noteq> [] \<and> same_rows (length theta_E) param_dict
      \<and> list_all (\<lambda>t. 0 \<le> t) theta_E \<and> Max (set theta_E) = 0"
  shows "map_sum id fst (rjs_with_einstein_radius L param_dict g)
         = Inr (map (\<lambda>kv. (fst kv, [])) param_dict)"
proof -
  obtain us g' where u: "random_sample L (length theta_E) g = (us, g')"
    by (cases "random_sample L (length theta_E) g")
  from h have c: "generator_contract L" and t: "map_of param_dict ''theta_E'' = Some theta_E"
    and ne: "theta_E \<noteq> []" and rows: "same_rows (length theta_E) param_dict"
    and nn: "list_all (\<lambda>t. 0 \<le> t) theta_E" and z: "Max (set theta_E) = 0" by simp_all
  note r = rjs_with_einstein_radius_rule(1) [OF c t ne rows u]
  have "select_rows (einstein_mask us theta_E) v = []" for v :: "real list"
    by (rule select_rows_none [OF einstein_mask_zero [OF nn z]])
  then show ?thesis by (simp add: r)
qed

lemma cross_section_zero_part:
  assumes h: "generator_contract L \<and> map_of param_dict ''theta_E'' = Some theta_E
      \<and> map_of param_dict ''q'' = Some q
      \<and> theta_E \<noteq> [] \<and> same_rows (length theta_E) param_dict
      \<and> list_all (\<lambda>w. 0 \<le> w) (cross_section_weights L theta_E q)
      \<and> Max (set (cross_section_weights L theta_E q)) = 0"
  shows "map_sum id fst (rjs_with_cross_section L param_dict g)
         = Inr (map (\<lambda>kv. (fst kv, [])) param_dict)"
proof -
  obtain us g' where u: "random_sample L (length theta_E) g = (us, g')"
    by (cases "random_sample L (length theta_E) g")
  from h have c: "generator_contract L" and t: "map_of param_dict ''theta_E'' = Some theta_E"
    and q: "map_of param_dict ''q'' = Some q"
    and ne: "theta_E \<noteq> []" and rows: "same_rows (length theta_E) param_dict"
    and nn: "list_all (\<lambda>w. 0 \<le> w) (cross_section_weights L theta_E q)"
    and z: "Max (set (cross_section_weights L theta_E q)) = 0" by simp_all
  note r = rjs_with_cross_section_rule(1) [OF c t q ne rows u]
  have "select_rows (cross_section_mask us (cross_section_weights L theta_E q)) v = []"
    for v :: "real list"
    by (rule select_rows_none [OF cross_section_mask_zero [OF nn z]])
  then show ?thesis by (simp add: r)
qed

text \<open>
  Claim C9, amended. An empty candidate batch makes both rejection rules fail with the
  ValueError of the maximum reduction, before any uniform number is drawn. A maximum
  weight of zero on a non-empty batch (of non-negative weights) is not detected: the
  uniform draws have width zero, no row is accepted, and the rule returns a batch whose
  fields are all empty, without reporting anything.
\<close>

theorem degenerate_distribution_behaviour:
  "(map_of param_dict ''theta_E'' = Some []
    \<longrightarrow> rjs_with_einstein_radius L param_dict g = Inl ValueError)
   \<and> (map_of param_dict ''theta_E'' = Some [] \<and> map_of param_dict ''q'' = Some []
    \<longrightarrow> rjs_with_cross_section L param_dict g = Inl ValueError)
   \<and> (generator_contract L \<and> map_of param_dict ''theta_E'' = Some theta_E
      \<and> theta_E \<noteq> [] \<and> same_rows (length theta_E) param_dict
      \<and> list_all (\<lambda>t. 0 \<le> t) theta_E \<and> Max (set theta_E) = 0
    \<longrightarrow> map_sum id fst (rjs_with_einstein_radius L param_dict g)
         = Inr (map (\<lambda>kv. (fst kv, [])) param_dict))
   \<and> (generator_contract L \<and> map_of param_dict ''theta_E'' = Some theta_E
      \<and> map_of param_dict ''q'' = Some q
      \<and> theta_E \<noteq> [] \<and> same_rows (length theta_E) param_dict
      \<and> list_all (\<lambda>w. 0 \<le> w) (cross_section_weights L theta_E q)
      \<and> Max (set (cross_section_weights L theta_E q)) = 0
    \<longrightarrow> map_sum id fst (rjs_with_cross_section L param_dict g)
         = Inr (map (\<lambda>kv. (fst kv, [])) param_dict))"
proof (intro conjI impI)
  assume "map_of param_dict ''theta_E'' = Some []"
  then show "rjs_with_einstein_radius L param_dict g = Inl ValueError"
    by (simp add: rjs_with_einstein_radius_def np_max_def)
next
  assume "map_of param_dict ''theta_E'' = Some [] \<and> map_of param_dict ''q'' = Some []"
  then show "rjs_with_cross_section L param_dict g = Inl ValueError"
    by (simp add: rjs_with_cross_section_def np_max_def)
next
  assume "generator_contract L \<and> map_of param_dict ''theta_E'' = Some theta_E
      \<and> theta_E \<noteq> [] \<and> same_rows (length theta_E) param_dict
      \<and> list_all (\<lambda>t. 0 \<le> t) theta_E \<and> Max (set theta_E) = 0"
  then show "map_sum id fst (rjs_with_einstein_radius L param_dict g)
         = Inr (map (\<lambda>kv. (fst kv, [])) param_dict)"
    by (rule einstein_zero_part)
next
  assume "generator_contract L \<and> map_of param_dict ''theta_E'' = Some theta_E
      \<and> map_of param_dict ''q'' = Some q
      \<and> theta_E \<noteq> [] \<and> same_rows (length theta_E) param_dict
      \<and> list_all (\<lambda>w. 0 \<le> w) (cross_section_weights L theta_E q)
      \<and> Max (set (cross_section_weights L theta_E q)) = 0"
  then show "map_sum id fst (rjs_with_cross_section L param_dict g)
         = Inr (map (\<lambda>kv. (fst kv, [])) param_dict)"
    by (rule cross_section_zero_part)
qed

text \<open>
  Claim C9 as stated fails on a batch of two lenses whose Einstein radii are both zero:
  the Einstein-radius rule returns the empty batch, not a failure.
\<close>

theorem degenerate_distribution_counterexample:
  "rjs_with_einstein_radius demo_lens zero_batch 0 = Inr (empty_batch, 0)
   \<and> \<not> isl (rjs_with_einstein_radius demo_lens zero_batch 0)"
  by (simp add: rjs_with_einstein_radius_def zero_batch_def empty_batch_def np_max_def
      np_random_uniform_def demo_lens_def select_rows_def numeral_2_eq_2)

lemma zero_batch_facts:
  "map_of empty_batch ''theta_E'' = Some []"
  "map_of empty_batch ''q'' = Some []"
  "map_of zero_batch ''theta_E'' = Some [0, 0]"
  "map_of zero_batch ''q'' = Some [1 / 2, 1 / 2]"
  "[0, 0 :: real] \<noteq> []"
  "same_rows (length [0, 0 :: real]) zero_batch"
  "list_all (\<lambda>t. 0 \<le> t) [0, 0 :: real]"
  "Max (set [0, 0 :: real]) = 0"
  "list_all (\<lambda>w. 0 \<le> w) (cross_section_weights demo_lens [0, 0] [1 / 2, 1 / 2])"
  "Max (set (cross_section_weights demo_lens [0, 0] [1 / 2, 1 / 2])) = 0"
  "map (\<lambda>kv. (fst kv, [])) zero_batch = empty_batch"
  by (simp_all add: empty_batch_def zero_batch_def same_rows_def cross_section_weights_def
      demo_lens_def)

theorem degenerate_distribution_behaviour_witness:
  "map_of empty_batch ''theta_E'' = Some [] \<and> map_of empty_batch ''q'' = Some []
   \<and> rjs_with_einstein_radius demo_lens empty_batch 0 = Inl ValueError
   \<and> rjs_with_cross_section demo_lens empty_batch 0 = Inl ValueError
   \<and> generator_contract demo_lens \<and> map_of zero_batch ''theta_E'' = Some [0, 0]
   \<and> map_of zero_batch ''q'' = Some [1 / 2, 1 / 2]
   \<and> [0, 0 :: real] \<noteq> [] \<and> same_rows (length [0, 0 :: real]) zero_batch
   \<and> list_all (\<lambda>t. 0 \<le> t) [0, 0 :: real] \<and> Max (set [0, 0 :: real]) = 0
   \<and> list_all (\<lambda>w. 0 \<le> w) (cross_section_weights demo_lens [0, 0] [1 / 2, 1 / 2])
   \<and> Max (set (cross_section_weights demo_lens [0, 0] [1 / 2, 1 / 2])) = 0
   \<and> map_sum id fst (rjs_with_einstein_radius demo_lens zero_batch 0) = Inr empty_batch
   \<and> map_sum id fst (rjs_with_cross_section demo_lens zero_batch 0) = Inr empty_batch"
proof -
  note z = zero_batch_facts
  note e = degenerate_distribution_behaviour [where L = demo_lens and param_dict = empty_batch
      and g = 0]
  note d = degenerate_distribution_behaviour [where L = demo_lens and param_dict = zero_batch
      and g = 0 and theta_E = "[0, 0]" and q = "[1 / 2, 1 / 2]"]
  have a: "rjs_with_einstein_radius demo_lens empty_batch 0 = Inl ValueError"
    by (rule e [THEN conjunct1, rule_format, OF z(1)])
  have h2: "map_of empty_batch ''theta_E'' = Some [] \<and> map_of empty_batch ''q'' = Some []"
    using z(1,2) by blast
  have b: "rjs_with_cross_section demo_lens empty_batch 0 = Inl ValueError"
    by (rule e [THEN conjunct2, THEN conjunct1, rule_format, OF h2])
  have h3: "generator_contract demo_lens \<and> map_of zero_batch ''theta_E'' = Some [0, 0]
      \<and> [0, 0 :: real] \<noteq> [] \<and> same_rows (length [0, 0 :: real]) zero_batch
      \<and> list_all (\<lambda>t. 0 \<le> t) [0, 0 :: real] \<and> Max (set [0, 0 :: real]) = 0"
    using demo_contract z(3,5,6,7,8) by blast
  have c: "map_sum id fst (rjs_with_einstein_radius demo_lens zero_batch 0) = Inr empty_batch"
    using d [THEN conjunct2, THEN conjunct2, THEN conjunct1, rule_format, OF h3]
    by (simp only: z(11))
  have h4: "generator_contract demo_lens \<and> map_of zero_batch ''theta_E'' = Some [0, 0]
      \<and> map_of zero_batch ''q'' = Some [1 / 2, 1 / 2]
      \<and> [0, 0 :: real] \<noteq> [] \<and> same_rows (length [0, 0 :: real]) zero_batch
      \<and> list_all (\<lambda>w. 0 \<le> w) (cross_section_weights demo_lens [0, 0] [1 / 2, 1 / 2])
      \<and> Max (set (cross_section_weights demo_lens [0, 0] [1 / 2, 1 / 2])) = 0"
    using demo_contract z(3,4,5,6,9,10) by blast
  have dd: "map_sum id fst (rjs_with_cross_section demo_lens zero_batch 0) = Inr empty_batch"
    using d [THEN conjunct2, THEN conjunct2, THEN conjunct2, rule_format, OF h4]
    by (simp only: z(11))
  show ?thesis using a b c dd h2 h3 h4 by blast
qed

end
